theory Spec2Isabelle
  imports Complex_Main "HOL-Library.Monad_Syntax"
begin

section \<open>Values shared by the two agents\<close>

text \<open>
  A JSON document as \<open>json.loads\<close> returns it. Floats do not occur in the records the
  agents write and are left out. An object keeps its members in order; a repeated key
  is read as Python reads it (the last one wins).
\<close>

datatype json =
    JNull
  | JBool bool
  | JInt int
  | JStr string
  | JArr "json list"
  | JObj "(string \<times> json) list"

text \<open>
  The text of a cache file, up to JSON decoding: either it is not JSON at all, or it is
  the text of a document. \<open>Path.read_text\<close> followed by the decoding step of
  \<open>parse_raw\<close> sees nothing else of the text.
\<close>

datatype file_text = Not_json | Json_text json

text \<open>
  A \<open>uuid.UUID\<close> is kept as its canonical text, the one \<open>str(job_id)\<close> prints and the
  cache file is named after. A \<open>datetime\<close> is the number of microseconds since the epoch.
\<close>

datatype uuid = UUID string

fun str_uuid :: "uuid \<Rightarrow> string" where
  "str_uuid (UUID s) = s"

type_synonym datetime = int

definition timedelta_minutes :: "int \<Rightarrow> int" where
  "timedelta_minutes m = m * 60000000"

definition timedelta_seconds :: "int \<Rightarrow> int" where
  "timedelta_seconds s = s * 1000000"

text \<open>The exceptions that the modelled code raises or lets through.\<close>

datatype exn =
    OSError
  | ValueError string
  | KeyError string
  | TimeoutError
  | HTTPStatusError nat
  | ConnectError
  | TypeError
  | AttributeError

subsection \<open>Field validation, as pydantic does it for the documents the agents write\<close>

text \<open>
  The validators accept the JSON shapes that \<open>.json()\<close> produces for each field type and
  ignore members that are not fields of the model (pydantic's default, which neither
  model overrides). Three things are not modelled, and a document that needs one of them
  counts as invalid here: coercion between JSON types, the default factories of
  \<open>job_id\<close> and \<open>requested_at\<close> (a random \<open>uuid4()\<close> and the clock), and any text of
  a UUID other than the canonical one. A datetime is written as the JSON number of its
  microseconds; the calendar text is not modelled.
\<close>

definition obj_get :: "(string \<times> json) list \<Rightarrow> string \<Rightarrow> json option" where
  "obj_get kvs k = map_of (rev kvs) k"

definition required :: "(string \<times> json) list \<Rightarrow> string \<Rightarrow> (json \<Rightarrow> 'a option) \<Rightarrow> 'a option" where
  "required kvs k v = (case obj_get kvs k of None \<Rightarrow> None | Some x \<Rightarrow> v x)"

definition with_default :: "(string \<times> json) list \<Rightarrow> string \<Rightarrow> (json \<Rightarrow> 'a option) \<Rightarrow> 'a \<Rightarrow> 'a option" where
  "with_default kvs k v d = (case obj_get kvs k of None \<Rightarrow> Some d | Some x \<Rightarrow> v x)"

definition optional :: "(string \<times> json) list \<Rightarrow> string \<Rightarrow> (json \<Rightarrow> 'a option) \<Rightarrow> 'a option option" where
  "optional kvs k v =
     (case obj_get kvs k of
        None \<Rightarrow> Some None
      | Some JNull \<Rightarrow> Some None
      | Some x \<Rightarrow> map_option Some (v x))"

fun those_opt :: "'a option list \<Rightarrow> 'a list option" where
  "those_opt [] = Some []"
| "those_opt (None # _) = None"
| "those_opt (Some x # xs) = map_option (Cons x) (those_opt xs)"

definition hex_digit :: "char \<Rightarrow> bool" where
  "hex_digit c = (c \<in> set ''0123456789abcdef'')"

definition canonical_uuid :: "string \<Rightarrow> bool" where
  "canonical_uuid s =
     (length s = 36 \<and> s ! 8 = CHR ''-'' \<and> s ! 13 = CHR ''-'' \<and> s ! 18 = CHR ''-'' \<and>
      s ! 23 = CHR ''-'' \<and>
      list_all hex_digit (take 8 s @ take 4 (drop 9 s) @ take 4 (drop 14 s) @
                          take 4 (drop 19 s) @ drop 24 s))"

fun v_uuid :: "json \<Rightarrow> uuid option" where
  "v_uuid (JStr s) = (if canonical_uuid s then Some (UUID s) else None)"
| "v_uuid _ = None"

fun v_datetime :: "json \<Rightarrow> datetime option" where
  "v_datetime (JInt t) = Some t"
| "v_datetime _ = None"

fun v_int :: "json \<Rightarrow> int option" where
  "v_int (JInt i) = Some i"
| "v_int _ = None"

fun v_str :: "json \<Rightarrow> string option" where
  "v_str (JStr s) = Some s"
| "v_str _ = None"

fun v_dict_any :: "json \<Rightarrow> (string \<times> json) list option" where
  "v_dict_any (JObj kvs) = Some kvs"
| "v_dict_any _ = None"

fun v_dict_str :: "json \<Rightarrow> (string \<times> string) list option" where
  "v_dict_str (JObj kvs) =
     those_opt (map (\<lambda>(k, x). map_option (Pair k) (v_str x)) kvs)"
| "v_dict_str _ = None"

fun v_list :: "(json \<Rightarrow> 'a option) \<Rightarrow> json \<Rightarrow> 'a list option" where
  "v_list v (JArr xs) = those_opt (map v xs)"
| "v_list v _ = None"

definition j_opt :: "('a \<Rightarrow> json) \<Rightarrow> 'a option \<Rightarrow> json" where
  "j_opt f x = (case x of None \<Rightarrow> JNull | Some y \<Rightarrow> f y)"

definition j_uuid :: "uuid \<Rightarrow> json" where
  "j_uuid u = JStr (str_uuid u)"

definition j_dict_str :: "(string \<times> string) list \<Rightarrow> json" where
  "j_dict_str kvs = JObj (map (\<lambda>(k, s). (k, JStr s)) kvs)"

section \<open>The AWX agent: models.py\<close>

datatype AWXJobStatus =
  NEW | PENDING | WAITING | RUNNING | SUCCESSFUL | JOB_FAILED | ERROR | JOB_CANCELED

fun AWXJobStatus_value :: "AWXJobStatus \<Rightarrow> string" where
  "AWXJobStatus_value NEW = ''new''"
| "AWXJobStatus_value PENDING = ''pending''"
| "AWXJobStatus_value WAITING = ''waiting''"
| "AWXJobStatus_value RUNNING = ''running''"
| "AWXJobStatus_value SUCCESSFUL = ''successful''"
| "AWXJobStatus_value JOB_FAILED = ''failed''"
| "AWXJobStatus_value ERROR = ''error''"
| "AWXJobStatus_value JOB_CANCELED = ''canceled''"

text \<open>\<open>AWXJobStatus(text)\<close>: the member with that value, or \<open>ValueError\<close>.\<close>

definition AWXJobStatus_of :: "string \<Rightarrow> AWXJobStatus option" where
  "AWXJobStatus_of s =
     find (\<lambda>m. AWXJobStatus_value m = s)
       [NEW, PENDING, WAITING, RUNNING, SUCCESSFUL, JOB_FAILED, ERROR, JOB_CANCELED]"

datatype AWXAgentJobStatus =
  RECEIVED | VALIDATING | LAUNCHING | MONITORING | COMPLETED | FAILED | CANCELED

fun AWXAgentJobStatus_value :: "AWXAgentJobStatus \<Rightarrow> string" where
  "AWXAgentJobStatus_value RECEIVED = ''received''"
| "AWXAgentJobStatus_value VALIDATING = ''validating''"
| "AWXAgentJobStatus_value LAUNCHING = ''launching''"
| "AWXAgentJobStatus_value MONITORING = ''monitoring''"
| "AWXAgentJobStatus_value COMPLETED = ''completed''"
| "AWXAgentJobStatus_value FAILED = ''failed''"
| "AWXAgentJobStatus_value CANCELED = ''canceled''"

definition AWXAgentJobStatus_of :: "string \<Rightarrow> AWXAgentJobStatus option" where
  "AWXAgentJobStatus_of s =
     find (\<lambda>m. AWXAgentJobStatus_value m = s)
       [RECEIVED, VALIDATING, LAUNCHING, MONITORING, COMPLETED, FAILED, CANCELED]"

fun v_awx_status :: "json \<Rightarrow> AWXJobStatus option" where
  "v_awx_status (JStr s) = AWXJobStatus_of s"
| "v_awx_status _ = None"

fun v_agent_status :: "json \<Rightarrow> AWXAgentJobStatus option" where
  "v_agent_status (JStr s) = AWXAgentJobStatus_of s"
| "v_agent_status _ = None"

record JobTemplateRequest =
  job_template_id :: "int option"
  job_template_name :: "string option"
  extra_vars :: "(string \<times> json) list"
  inventory_id :: "int option"
  limit :: "string option"
  metadata :: "(string \<times> string) list"

record OrchestrationRequest =
  request :: string
  context' :: "(string \<times> json) list"
  metadata :: "(string \<times> string) list"

record AWXJob =
  job_id :: uuid
  status :: AWXAgentJobStatus
  requested_at :: datetime
  completed_at :: "datetime option"
  request :: JobTemplateRequest
  message :: "string option"
  awx_job_id :: "int option"
  awx_job_status :: "AWXJobStatus option"
  awx_job_output :: "string option"
  awx_job_facts :: "(string \<times> json) list option"
  awx_error :: "string option"
  parent_job_id :: "uuid option"
  child_job_ids :: "uuid list"
  step_number :: "int option"
  total_steps :: "int option"

record OrchestrationJob =
  job_id :: uuid
  status :: AWXAgentJobStatus
  requested_at :: datetime
  completed_at :: "datetime option"
  request :: OrchestrationRequest
  message :: "string option"
  decomposed_tasks :: "(string \<times> json) list list"
  awx_jobs :: "AWXJob list"
  llm_response :: "string option"
  llm_error :: "string option"

subsection \<open>\<open>.json()\<close> and \<open>parse_raw\<close> of the four models\<close>

definition JobTemplateRequest_json :: "JobTemplateRequest \<Rightarrow> json" where
  "JobTemplateRequest_json r = JObj
     [(''job_template_id'', j_opt JInt (job_template_id r)),
      (''job_template_name'', j_opt JStr (job_template_name r)),
      (''extra_vars'', JObj (extra_vars r)),
      (''inventory_id'', j_opt JInt (inventory_id r)),
      (''limit'', j_opt JStr (limit r)),
      (''metadata'', j_dict_str (JobTemplateRequest.metadata r))]"

fun JobTemplateRequest_validate :: "json \<Rightarrow> JobTemplateRequest option" where
  "JobTemplateRequest_validate (JObj kvs) = do {
     tid \<leftarrow> optional kvs ''job_template_id'' v_int;
     tname \<leftarrow> optional kvs ''job_template_name'' v_str;
     ev \<leftarrow> with_default kvs ''extra_vars'' v_dict_any [];
     inv \<leftarrow> optional kvs ''inventory_id'' v_int;
     lim \<leftarrow> optional kvs ''limit'' v_str;
     md \<leftarrow> with_default kvs ''metadata'' v_dict_str [];
     Some \<lparr>job_template_id = tid, job_template_name = tname, extra_vars = ev,
            inventory_id = inv, limit = lim, JobTemplateRequest.metadata = md\<rparr>
   }"
| "JobTemplateRequest_validate _ = None"

definition OrchestrationRequest_json :: "OrchestrationRequest \<Rightarrow> json" where
  "OrchestrationRequest_json r = JObj
     [(''request'', JStr (OrchestrationRequest.request r)),
      (''context'', JObj (context' r)),
      (''metadata'', j_dict_str (OrchestrationRequest.metadata r))]"

fun v_request_text :: "json \<Rightarrow> string option" where
  "v_request_text (JStr s) = (if length s < 10 then None else Some s)"
| "v_request_text _ = None"

fun OrchestrationRequest_validate :: "json \<Rightarrow> OrchestrationRequest option" where
  "OrchestrationRequest_validate (JObj kvs) = do {
     rq \<leftarrow> required kvs ''request'' v_request_text;
     cx \<leftarrow> with_default kvs ''context'' v_dict_any [];
     md \<leftarrow> with_default kvs ''metadata'' v_dict_str [];
     Some \<lparr>OrchestrationRequest.request = rq, context' = cx,
            OrchestrationRequest.metadata = md\<rparr>
   }"
| "OrchestrationRequest_validate _ = None"

definition AWXJob_json :: "AWXJob \<Rightarrow> json" where
  "AWXJob_json j = JObj
     [(''job_id'', j_uuid (AWXJob.job_id j)),
      (''status'', JStr (AWXAgentJobStatus_value (AWXJob.status j))),
      (''requested_at'', JInt (AWXJob.requested_at j)),
      (''completed_at'', j_opt JInt (AWXJob.completed_at j)),
      (''request'', JobTemplateRequest_json (AWXJob.request j)),
      (''message'', j_opt JStr (AWXJob.message j)),
      (''awx_job_id'', j_opt JInt (awx_job_id j)),
      (''awx_job_status'', j_opt (\<lambda>s. JStr (AWXJobStatus_value s)) (awx_job_status j)),
      (''awx_job_output'', j_opt JStr (awx_job_output j)),
      (''awx_job_facts'', j_opt JObj (awx_job_facts j)),
      (''awx_error'', j_opt JStr (awx_error j)),
      (''parent_job_id'', j_opt j_uuid (parent_job_id j)),
      (''child_job_ids'', JArr (map j_uuid (child_job_ids j))),
      (''step_number'', j_opt JInt (step_number j)),
      (''total_steps'', j_opt JInt (total_steps j))]"

fun AWXJob_validate :: "json \<Rightarrow> AWXJob option" where
  "AWXJob_validate (JObj kvs) = do {
     jid \<leftarrow> required kvs ''job_id'' v_uuid;
     st \<leftarrow> with_default kvs ''status'' v_agent_status RECEIVED;
     ra \<leftarrow> required kvs ''requested_at'' v_datetime;
     ca \<leftarrow> optional kvs ''completed_at'' v_datetime;
     rq \<leftarrow> required kvs ''request'' JobTemplateRequest_validate;
     msg \<leftarrow> optional kvs ''message'' v_str;
     aid \<leftarrow> optional kvs ''awx_job_id'' v_int;
     ast \<leftarrow> optional kvs ''awx_job_status'' v_awx_status;
     out \<leftarrow> optional kvs ''awx_job_output'' v_str;
     facts \<leftarrow> optional kvs ''awx_job_facts'' v_dict_any;
     err \<leftarrow> optional kvs ''awx_error'' v_str;
     par \<leftarrow> optional kvs ''parent_job_id'' v_uuid;
     kids \<leftarrow> with_default kvs ''child_job_ids'' (v_list v_uuid) [];
     sn \<leftarrow> optional kvs ''step_number'' v_int;
     ts \<leftarrow> optional kvs ''total_steps'' v_int;
     Some \<lparr>AWXJob.job_id = jid, AWXJob.status = st, AWXJob.requested_at = ra,
            AWXJob.completed_at = ca, AWXJob.request = rq, AWXJob.message = msg,
            awx_job_id = aid, awx_job_status = ast, awx_job_output = out,
            awx_job_facts = facts, awx_error = err, parent_job_id = par,
            child_job_ids = kids, step_number = sn, total_steps = ts\<rparr>
   }"
| "AWXJob_validate _ = None"

definition OrchestrationJob_json :: "OrchestrationJob \<Rightarrow> json" where
  "OrchestrationJob_json j = JObj
     [(''job_id'', j_uuid (OrchestrationJob.job_id j)),
      (''status'', JStr (AWXAgentJobStatus_value (OrchestrationJob.status j))),
      (''requested_at'', JInt (OrchestrationJob.requested_at j)),
      (''completed_at'', j_opt JInt (OrchestrationJob.completed_at j)),
      (''request'', OrchestrationRequest_json (OrchestrationJob.request j)),
      (''message'', j_opt JStr (OrchestrationJob.message j)),
      (''decomposed_tasks'', JArr (map JObj (decomposed_tasks j))),
      (''awx_jobs'', JArr (map AWXJob_json (awx_jobs j))),
      (''llm_response'', j_opt JStr (llm_response j)),
      (''llm_error'', j_opt JStr (llm_error j))]"

fun OrchestrationJob_validate :: "json \<Rightarrow> OrchestrationJob option" where
  "OrchestrationJob_validate (JObj kvs) = do {
     jid \<leftarrow> required kvs ''job_id'' v_uuid;
     st \<leftarrow> with_default kvs ''status'' v_agent_status RECEIVED;
     ra \<leftarrow> required kvs ''requested_at'' v_datetime;
     ca \<leftarrow> optional kvs ''completed_at'' v_datetime;
     rq \<leftarrow> required kvs ''request'' OrchestrationRequest_validate;
     msg \<leftarrow> optional kvs ''message'' v_str;
     tasks \<leftarrow> with_default kvs ''decomposed_tasks'' (v_list v_dict_any) [];
     subs \<leftarrow> with_default kvs ''awx_jobs'' (v_list AWXJob_validate) [];
     resp \<leftarrow> optional kvs ''llm_response'' v_str;
     err \<leftarrow> optional kvs ''llm_error'' v_str;
     Some \<lparr>OrchestrationJob.job_id = jid, OrchestrationJob.status = st,
            OrchestrationJob.requested_at = ra, OrchestrationJob.completed_at = ca,
            OrchestrationJob.request = rq, OrchestrationJob.message = msg,
            decomposed_tasks = tasks, awx_jobs = subs, llm_response = resp,
            llm_error = err\<rparr>
   }"
| "OrchestrationJob_validate _ = None"

text \<open>
  \<open>Model.parse_raw(text)\<close> decodes the text and validates the document; \<open>None\<close> stands for
  the exception it raises on either failure.
\<close>

fun AWXJob_parse_raw :: "file_text \<Rightarrow> AWXJob option" where
  "AWXJob_parse_raw Not_json = None"
| "AWXJob_parse_raw (Json_text d) = AWXJob_validate d"

fun OrchestrationJob_parse_raw :: "file_text \<Rightarrow> OrchestrationJob option" where
  "OrchestrationJob_parse_raw Not_json = None"
| "OrchestrationJob_parse_raw (Json_text d) = OrchestrationJob_validate d"


section \<open>The AWX agent: job_manager.py\<close>

text \<open>
  \<open>Union[AWXJob, OrchestrationJob]\<close>. The attributes that both classes have are read
  through the functions below, as the manager's duck-typed code reads them.
\<close>

datatype job = AWX AWXJob | Orch OrchestrationJob

fun job_job_id :: "job \<Rightarrow> uuid" where
  "job_job_id (AWX j) = AWXJob.job_id j"
| "job_job_id (Orch j) = OrchestrationJob.job_id j"

fun job_status :: "job \<Rightarrow> AWXAgentJobStatus" where
  "job_status (AWX j) = AWXJob.status j"
| "job_status (Orch j) = OrchestrationJob.status j"

fun job_requested_at :: "job \<Rightarrow> datetime" where
  "job_requested_at (AWX j) = AWXJob.requested_at j"
| "job_requested_at (Orch j) = OrchestrationJob.requested_at j"

fun job_completed_at :: "job \<Rightarrow> datetime option" where
  "job_completed_at (AWX j) = AWXJob.completed_at j"
| "job_completed_at (Orch j) = OrchestrationJob.completed_at j"

fun job_message :: "job \<Rightarrow> string option" where
  "job_message (AWX j) = AWXJob.message j"
| "job_message (Orch j) = OrchestrationJob.message j"

fun set_status :: "AWXAgentJobStatus \<Rightarrow> job \<Rightarrow> job" where
  "set_status s (AWX j) = AWX (j\<lparr>AWXJob.status := s\<rparr>)"
| "set_status s (Orch j) = Orch (j\<lparr>OrchestrationJob.status := s\<rparr>)"

fun set_message :: "string option \<Rightarrow> job \<Rightarrow> job" where
  "set_message x (AWX j) = AWX (j\<lparr>AWXJob.message := x\<rparr>)"
| "set_message x (Orch j) = Orch (j\<lparr>OrchestrationJob.message := x\<rparr>)"

fun set_completed_at :: "datetime option \<Rightarrow> job \<Rightarrow> job" where
  "set_completed_at x (AWX j) = AWX (j\<lparr>AWXJob.completed_at := x\<rparr>)"
| "set_completed_at x (Orch j) = Orch (j\<lparr>OrchestrationJob.completed_at := x\<rparr>)"

fun job_json :: "job \<Rightarrow> file_text" where
  "job_json (AWX j) = Json_text (AWXJob_json j)"
| "job_json (Orch j) = Json_text (OrchestrationJob_json j)"

text \<open>
  The keyword arguments of \<open>update_status\<close>, each a field name with a value of the
  field's declared type. \<open>job_id\<close>, \<open>status\<close> and \<open>message\<close> are parameters of the
  method and can never arrive in \<open>**kwargs\<close>. \<open>setattr\<close> on a pydantic model raises
  \<open>ValueError\<close> for a name that is not a field of the object's class; a value of another
  type than the declared one (which Python would store without complaint) is outside
  this model and is given the same outcome.
\<close>

datatype kwarg =
    Kw_requested_at datetime
  | Kw_completed_at "datetime option"
  | Kw_request JobTemplateRequest
  | Kw_orch_request OrchestrationRequest
  | Kw_awx_job_id "int option"
  | Kw_awx_job_status "AWXJobStatus option"
  | Kw_awx_job_output "string option"
  | Kw_awx_job_facts "(string \<times> json) list option"
  | Kw_awx_error "string option"
  | Kw_parent_job_id "uuid option"
  | Kw_child_job_ids "uuid list"
  | Kw_step_number "int option"
  | Kw_total_steps "int option"
  | Kw_decomposed_tasks "(string \<times> json) list list"
  | Kw_awx_jobs "AWXJob list"
  | Kw_llm_response "string option"
  | Kw_llm_error "string option"

fun setattr :: "job \<Rightarrow> kwarg \<Rightarrow> exn + job" where
  "setattr (AWX j) (Kw_requested_at x) = Inr (AWX (j\<lparr>AWXJob.requested_at := x\<rparr>))"
| "setattr (AWX j) (Kw_completed_at x) = Inr (AWX (j\<lparr>AWXJob.completed_at := x\<rparr>))"
| "setattr (AWX j) (Kw_request x) = Inr (AWX (j\<lparr>AWXJob.request := x\<rparr>))"
| "setattr (AWX j) (Kw_awx_job_id x) = Inr (AWX (j\<lparr>awx_job_id := x\<rparr>))"
| "setattr (AWX j) (Kw_awx_job_status x) = Inr (AWX (j\<lparr>awx_job_status := x\<rparr>))"
| "setattr (AWX j) (Kw_awx_job_output x) = Inr (AWX (j\<lparr>awx_job_output := x\<rparr>))"
| "setattr (AWX j) (Kw_awx_job_facts x) = Inr (AWX (j\<lparr>awx_job_facts := x\<rparr>))"
| "setattr (AWX j) (Kw_awx_error x) = Inr (AWX (j\<lparr>awx_error := x\<rparr>))"
| "setattr (AWX j) (Kw_parent_job_id x) = Inr (AWX (j\<lparr>parent_job_id := x\<rparr>))"
| "setattr (AWX j) (Kw_child_job_ids x) = Inr (AWX (j\<lparr>child_job_ids := x\<rparr>))"
| "setattr (AWX j) (Kw_step_number x) = Inr (AWX (j\<lparr>step_number := x\<rparr>))"
| "setattr (AWX j) (Kw_total_steps x) = Inr (AWX (j\<lparr>total_steps := x\<rparr>))"
| "setattr (Orch j) (Kw_requested_at x) = Inr (Orch (j\<lparr>OrchestrationJob.requested_at := x\<rparr>))"
| "setattr (Orch j) (Kw_completed_at x) = Inr (Orch (j\<lparr>OrchestrationJob.completed_at := x\<rparr>))"
| "setattr (Orch j) (Kw_orch_request x) = Inr (Orch (j\<lparr>OrchestrationJob.request := x\<rparr>))"
| "setattr (Orch j) (Kw_decomposed_tasks x) = Inr (Orch (j\<lparr>decomposed_tasks := x\<rparr>))"
| "setattr (Orch j) (Kw_awx_jobs x) = Inr (Orch (j\<lparr>awx_jobs := x\<rparr>))"
| "setattr (Orch j) (Kw_llm_response x) = Inr (Orch (j\<lparr>llm_response := x\<rparr>))"
| "setattr (Orch j) (Kw_llm_error x) = Inr (Orch (j\<lparr>llm_error := x\<rparr>))"
| "setattr _ _ = Inl (ValueError ''object has no field'')"

text \<open>
  \<open>for key, value in kwargs.items(): setattr(job, key, value)\<close>. The result is the
  exception that stopped the loop, if any, and the object with the assignments made
  until then.
\<close>

fun setattrs :: "job \<Rightarrow> kwarg list \<Rightarrow> exn option \<times> job" where
  "setattrs j [] = (None, j)"
| "setattrs j (k # ks) =
     (case setattr j k of Inl e \<Rightarrow> (Some e, j) | Inr j' \<Rightarrow> setattrs j' ks)"

text \<open>
  The manager together with what it acts on. The job objects live in \<open>heap\<close>, and
  \<open>jobs\<close> (the dictionary \<open>self._jobs\<close>) maps an id to a reference, so that a worker
  holding the reference \<open>get_job\<close> returned and the manager see the same object.
  \<open>disk\<close> is the cache directory, from file name to text. \<open>write_fails\<close> says whether
  \<open>Path.write_text\<close> raises \<open>OSError\<close> (a full or read-only disk); failures of reading
  and unlinking are not modelled. \<open>written\<close> logs the successful writes, oldest first.
  Every \<open>datetime.utcnow()\<close> takes the next reading of \<open>clock\<close>, and every
  \<open>uuid4()\<close> the next member of \<open>uuids\<close>.
\<close>

type_synonym ref = nat

record manager =
  heap :: "ref \<Rightarrow> job"
  next_ref :: ref
  jobs :: "uuid \<rightharpoonup> ref"
  last_purge :: "datetime option"
  disk :: "string \<rightharpoonup> file_text"
  write_fails :: bool
  written :: "(string \<times> file_text) list"
  clock :: "nat \<Rightarrow> datetime"
  ticks :: nat
  uuids :: "nat \<Rightarrow> uuid"
  draws :: nat
  job_retention_minutes :: int

definition utcnow :: "manager \<Rightarrow> datetime \<times> manager" where
  "utcnow m = (clock m (ticks m), m\<lparr>ticks := Suc (ticks m)\<rparr>)"

definition uuid4 :: "manager \<Rightarrow> uuid \<times> manager" where
  "uuid4 m = (uuids m (draws m), m\<lparr>draws := Suc (draws m)\<rparr>)"

definition alloc :: "job \<Rightarrow> manager \<Rightarrow> ref \<times> manager" where
  "alloc j m = (next_ref m, m\<lparr>heap := (heap m)(next_ref m := j), next_ref := Suc (next_ref m)\<rparr>)"

definition poke :: "ref \<Rightarrow> (job \<Rightarrow> job) \<Rightarrow> manager \<Rightarrow> manager" where
  "poke r f m = m\<lparr>heap := (heap m)(r := f (heap m r))\<rparr>"

definition cache_path :: "uuid \<Rightarrow> string" where
  "cache_path jid = str_uuid jid @ ''.json''"

text \<open>The names that \<open>self._cache_dir.glob("*.json")\<close> yields.\<close>

definition glob_json :: "string \<Rightarrow> bool" where
  "glob_json name = (take 5 (rev name) = rev ''.json'')"

text \<open>
  The nested \<open>try\<close> of \<open>get_job\<close> and \<open>purge_old_jobs\<close>: \<open>AWXJob.parse_raw\<close> first, and
  \<open>OrchestrationJob.parse_raw\<close> when that raises; \<open>None\<close> when both raise.
\<close>

definition parse_cached :: "file_text \<Rightarrow> job option" where
  "parse_cached text =
     (case AWXJob_parse_raw text of
        Some j \<Rightarrow> Some (AWX j)
      | None \<Rightarrow>
          (case OrchestrationJob_parse_raw text of
             Some j \<Rightarrow> Some (Orch j)
           | None \<Rightarrow> None))"

definition expired :: "datetime \<Rightarrow> job \<Rightarrow> bool" where
  "expired cutoff j = (case job_completed_at j of None \<Rightarrow> False | Some t \<Rightarrow> t < cutoff)"

definition purge_old_jobs :: "manager \<Rightarrow> manager" where
  "purge_old_jobs m =
     (let (now, m1) = utcnow m;
          cutoff = now - timedelta_minutes (job_retention_minutes m1)
      in m1\<lparr>jobs :=
              (\<lambda>jid. case jobs m1 jid of
                           None \<Rightarrow> None
                         | Some r \<Rightarrow> if expired cutoff (heap m1 r) then None else Some r),
            disk :=
              (\<lambda>name. case disk m1 name of
                         None \<Rightarrow> None
                       | Some text \<Rightarrow>
                           if glob_json name then
                             (case parse_cached text of
                                None \<Rightarrow> None
                              | Some j \<Rightarrow> if expired cutoff j then None else Some text)
                           else Some text)\<rparr>)"

definition maybe_purge :: "manager \<Rightarrow> manager" where
  "maybe_purge m =
     (let (now, m1) = utcnow m
      in if (case last_purge m1 of
               None \<Rightarrow> False
             | Some lp \<Rightarrow> now - lp < timedelta_seconds 60)
         then m1
         else (purge_old_jobs m1)\<lparr>last_purge := Some now\<rparr>)"

definition persist_job :: "ref \<Rightarrow> manager \<Rightarrow> (exn + unit) \<times> manager" where
  "persist_job r m =
     (let p = cache_path (job_job_id (heap m r)); text = job_json (heap m r)
      in if write_fails m then (Inl OSError, m)
         else (Inr (), m\<lparr>disk := (disk m)(p \<mapsto> text), written := written m @ [(p, text)]\<rparr>))"

definition add_job :: "ref \<Rightarrow> manager \<Rightarrow> ref \<times> manager" where
  "add_job r m =
     (let jid = job_job_id (heap m r);
          m1 = maybe_purge (m\<lparr>jobs := (jobs m)(jid \<mapsto> r)\<rparr>);
          p = cache_path jid
      in (r, if disk m1 p \<noteq> None then m1\<lparr>disk := (disk m1)(p := None)\<rparr> else m1))"

definition get_job :: "uuid \<Rightarrow> manager \<Rightarrow> ref option \<times> manager" where
  "get_job jid m =
     (case jobs m jid of
        Some r \<Rightarrow> (Some r, m)
      | None \<Rightarrow>
          (let p = cache_path jid
           in case disk m p of
                None \<Rightarrow> (None, m)
              | Some text \<Rightarrow>
                  (case parse_cached text of
                     None \<Rightarrow> (None, m\<lparr>disk := (disk m)(p := None)\<rparr>)
                   | Some j \<Rightarrow>
                       (let (r, m1) = alloc j m;
                            m2 = m1\<lparr>jobs := (jobs m1)(job_job_id j \<mapsto> r)\<rparr>
                        in (Some r, maybe_purge m2)))))"

text \<open>\<open>if message:\<close> is false for \<open>None\<close> and for the empty string.\<close>

definition truthy :: "string option \<Rightarrow> bool" where
  "truthy x = (case x of None \<Rightarrow> False | Some s \<Rightarrow> s \<noteq> [])"

text \<open>
  Lines 80 to 84 of \<open>update_status\<close>, which act on the job object alone: the status is
  assigned, the message when it is truthy, then the keyword arguments in order. The
  result is the exception that stopped the assignments, if any, and the object as the
  assignments left it.
\<close>

definition assign_fields ::
  "AWXAgentJobStatus \<Rightarrow> string option \<Rightarrow> kwarg list \<Rightarrow> job \<Rightarrow> exn option \<times> job" where
  "assign_fields st msg kwargs j =
     (let j1 = set_status st j;
          j2 = (if truthy msg then set_message msg j1 else j1)
      in setattrs j2 kwargs)"

definition update_status ::
  "uuid \<Rightarrow> AWXAgentJobStatus \<Rightarrow> string option \<Rightarrow> kwarg list \<Rightarrow> manager
     \<Rightarrow> (exn + ref option) \<times> manager" where
  "update_status jid st msg kwargs m =
     (case jobs m jid of
        None \<Rightarrow> (Inr None, m)
      | Some r \<Rightarrow>
          (case assign_fields st msg kwargs (heap m r) of
             (Some e, j) \<Rightarrow> (Inl e, m\<lparr>heap := (heap m)(r := j)\<rparr>)
           | (None, j) \<Rightarrow>
               (let m1 = m\<lparr>heap := (heap m)(r := j)\<rparr>
                in if st \<in> set [COMPLETED, FAILED, CANCELED] then
                     (let (now, m2) = utcnow m1;
                          m3 = poke r (set_completed_at (Some now)) m2
                      in case persist_job r m3 of
                           (Inl e, m4) \<Rightarrow> (Inl e, m4)
                         | (Inr _, m4) \<Rightarrow> (Inr (Some r), maybe_purge m4))
                   else (Inr (Some r), maybe_purge m1))))"

section \<open>Concrete jobs and managers used to exercise the theorems\<close>

definition ex_id :: uuid where
  "ex_id = UUID ''0a1b2c3d-0000-4000-8000-00000000000a''"

definition ex_id_old :: uuid where
  "ex_id_old = UUID ''0a1b2c3d-0000-4000-8000-00000000000b''"

definition ex_id_fresh :: uuid where
  "ex_id_fresh = UUID ''0a1b2c3d-0000-4000-8000-00000000000c''"

definition ex_request :: JobTemplateRequest where
  "ex_request = \<lparr>job_template_id = None, job_template_name = Some ''deploy-web'',
     extra_vars = [(''tier'', JStr ''web'')], inventory_id = None, limit = None,
     JobTemplateRequest.metadata = []\<rparr>"

definition ex_awx :: AWXJob where
  "ex_awx = \<lparr>AWXJob.job_id = ex_id, AWXJob.status = RECEIVED, AWXJob.requested_at = 1000,
     AWXJob.completed_at = None, AWXJob.request = ex_request, AWXJob.message = None,
     awx_job_id = None, awx_job_status = None, awx_job_output = None, awx_job_facts = None,
     awx_error = None, parent_job_id = None, child_job_ids = [], step_number = None,
     total_steps = None\<rparr>"

text \<open>One AWX job in memory, still in its first state; nothing on disk.\<close>

definition ex_manager :: manager where
  "ex_manager = \<lparr>heap = (\<lambda>_. AWX ex_awx), next_ref = 1, jobs = [ex_id \<mapsto> 0],
     last_purge = None, disk = Map.empty, write_fails = False, written = [],
     clock = (\<lambda>n. 5000 + int n), ticks = 0,
     uuids = (\<lambda>n. if n = 0 then ex_id_old else ex_id_fresh), draws = 0,
     job_retention_minutes = 60\<rparr>"

text \<open>The same job, already COMPLETED at time 2000.\<close>

definition ex_done :: manager where
  "ex_done = ex_manager\<lparr>heap :=
     (\<lambda>_. AWX (ex_awx\<lparr>AWXJob.status := COMPLETED, AWXJob.completed_at := Some 2000\<rparr>))\<rparr>"

text \<open>The job is on disk only.\<close>

definition ex_cold :: manager where
  "ex_cold = ex_manager\<lparr>jobs := Map.empty,
      disk := [cache_path ex_id \<mapsto> Json_text (AWXJob_json ex_awx)]\<rparr>"

text \<open>Nothing in memory, and a cache file that is not a job record.\<close>

definition ex_corrupt :: manager where
  "ex_corrupt = ex_manager\<lparr>jobs := Map.empty, disk := [cache_path ex_id \<mapsto> Not_json]\<rparr>"

text \<open>
  A purge at time \<open>10^10\<close> with a retention of 60 minutes: one job completed 61 minutes
  ago, one 59 minutes ago and one not completed, each in memory and on disk.
\<close>

definition ex_old :: AWXJob where
  "ex_old = ex_awx\<lparr>AWXJob.job_id := ex_id_old, AWXJob.status := COMPLETED,
     AWXJob.completed_at := Some 6340000000\<rparr>"

definition ex_fresh :: AWXJob where
  "ex_fresh = ex_awx\<lparr>AWXJob.job_id := ex_id_fresh, AWXJob.status := FAILED,
     AWXJob.completed_at := Some 6460000000\<rparr>"

definition ex_purge :: manager where
  "ex_purge = \<lparr>heap = (\<lambda>r. if r = 0 then AWX ex_old else if r = 1 then AWX ex_fresh
                            else AWX ex_awx),
     next_ref = 3, jobs = [ex_id_old \<mapsto> 0, ex_id_fresh \<mapsto> 1, ex_id \<mapsto> 2],
     last_purge = None,
     disk = [cache_path ex_id_old \<mapsto> Json_text (AWXJob_json ex_old),
             cache_path ex_id_fresh \<mapsto> Json_text (AWXJob_json ex_fresh),
             cache_path ex_id \<mapsto> Json_text (AWXJob_json ex_awx)],
     write_fails = False, written = [],
     clock = (\<lambda>n. 10000000000 + int n), ticks = 0,
     uuids = (\<lambda>_. ex_id), draws = 0, job_retention_minutes = 60\<rparr>"

text \<open>An orchestration job in memory, not yet processed.\<close>

definition ex_orch_request :: OrchestrationRequest where
  "ex_orch_request = \<lparr>OrchestrationRequest.request = ''install nginx on web01'',
     context' = [], OrchestrationRequest.metadata = [(''team'', ''ops'')]\<rparr>"

definition ex_orch :: OrchestrationJob where
  "ex_orch = \<lparr>OrchestrationJob.job_id = ex_id, OrchestrationJob.status = RECEIVED,
     OrchestrationJob.requested_at = 1000, OrchestrationJob.completed_at = None,
     OrchestrationJob.request = ex_orch_request, OrchestrationJob.message = None,
     decomposed_tasks = [], awx_jobs = [], llm_response = None, llm_error = None\<rparr>"

definition ex_orch_manager :: manager where
  "ex_orch_manager = ex_manager\<lparr>heap := (\<lambda>_. Orch ex_orch)\<rparr>"

section \<open>The AWX agent: awx_adapter.py\<close>

text \<open>
  What \<open>httpx\<close> gives back for one call is a response (its status code and the document
  in its body) or a transport exception. The server is a script of such outcomes, one
  list for the token endpoint and one for all other paths, taken in order; a call made
  when the script is exhausted fails to connect. \<open>sent\<close> logs the calls the adapter
  made, oldest first: a token request, or an API request with its method, path and the
  credential in its \<open>Authorization\<close> header. URL joining and the other headers are not
  modelled. \<open>time.time()\<close> takes the next reading of \<open>wall\<close>, in seconds.
\<close>

record response =
  status_code :: nat
  body :: json

datatype http_call =
    Token_post
  | Api_call string string "json option"

fun is_api_call :: "http_call \<Rightarrow> bool" where
  "is_api_call Token_post = False"
| "is_api_call (Api_call _ _ _) = True"

record AWXAdapter =
  token :: "json option"
  token_expires :: "real option"
  token_replies :: "(exn + response) list"
  api_replies :: "(exn + response) list"
  sent :: "http_call list"
  wall :: "nat \<Rightarrow> real"
  reads :: nat

definition time_time :: "AWXAdapter \<Rightarrow> real \<times> AWXAdapter" where
  "time_time a = (wall a (reads a), a\<lparr>reads := Suc (reads a)\<rparr>)"

text \<open>\<open>Response.is_success\<close>: a 2xx status. \<open>raise_for_status\<close> raises for any other.\<close>

definition is_success :: "response \<Rightarrow> bool" where
  "is_success resp = (200 \<le> status_code resp \<and> status_code resp \<le> 299)"

definition raise_for_status :: "response \<Rightarrow> exn + response" where
  "raise_for_status resp =
     (if is_success resp then Inr resp else Inl (HTTPStatusError (status_code resp)))"

text \<open>\<open>client.post("/api/v2/tokens/", ...)\<close>\<close>

definition client_post_token :: "AWXAdapter \<Rightarrow> (exn + response) \<times> AWXAdapter" where
  "client_post_token a =
     (case token_replies a of
        [] \<Rightarrow> (Inl ConnectError, a\<lparr>sent := sent a @ [Token_post]\<rparr>)
      | x # rest \<Rightarrow> (x, a\<lparr>token_replies := rest, sent := sent a @ [Token_post]\<rparr>))"

text \<open>\<open>client.request(method, url, headers=headers, **kwargs)\<close>\<close>

definition client_request ::
  "string \<Rightarrow> string \<Rightarrow> json option \<Rightarrow> AWXAdapter \<Rightarrow> (exn + response) \<times> AWXAdapter" where
  "client_request method path bearer a =
     (case api_replies a of
        [] \<Rightarrow> (Inl ConnectError, a\<lparr>sent := sent a @ [Api_call method path bearer]\<rparr>)
      | x # rest \<Rightarrow>
          (x, a\<lparr>api_replies := rest, sent := sent a @ [Api_call method path bearer]\<rparr>))"

text \<open>\<open>data["token"]\<close> for the decoded body \<open>data\<close>; JSON \<open>null\<close> is Python's \<open>None\<close>.\<close>

fun token_of_body :: "json \<Rightarrow> exn + json option" where
  "token_of_body (JObj kvs) =
     (case obj_get kvs ''token'' of
        None \<Rightarrow> Inl (KeyError ''token'')
      | Some JNull \<Rightarrow> Inr None
      | Some v \<Rightarrow> Inr (Some v))"
| "token_of_body _ = Inl TypeError"

definition get_token :: "AWXAdapter \<Rightarrow> (exn + json option) \<times> AWXAdapter" where
  "get_token a =
     (let (now, a1) = time_time a
      in if token a1 = None \<or>
            (case token_expires a1 of None \<Rightarrow> False | Some e \<Rightarrow> e \<noteq> 0 \<and> now \<ge> e - 60)
         then
           (case client_post_token a1 of
              (Inl e, a2) \<Rightarrow> (Inl e, a2)
            | (Inr resp, a2) \<Rightarrow>
                (case raise_for_status resp of
                   Inl e \<Rightarrow> (Inl e, a2)
                 | Inr _ \<Rightarrow>
                     (case token_of_body (body resp) of
                        Inl e \<Rightarrow> (Inl e, a2)
                      | Inr t \<Rightarrow>
                          (Inr t, a2\<lparr>token := t, token_expires := Some (now + 3600)\<rparr>))))
         else (Inr (token a1), a1))"

text \<open>\<open>AWXAdapter._request\<close>\<close>

definition request' ::
  "string \<Rightarrow> string \<Rightarrow> AWXAdapter \<Rightarrow> (exn + response) \<times> AWXAdapter" where
  "request' method path a =
     (case get_token a of
        (Inl e, a1) \<Rightarrow> (Inl e, a1)
      | (Inr tok, a1) \<Rightarrow>
          (case client_request method path tok a1 of
             (Inl e, a2) \<Rightarrow> (Inl e, a2)
           | (Inr resp, a2) \<Rightarrow>
               if status_code resp = 401 then
                 (let a3 = a2\<lparr>token := None, token_expires := None\<rparr>
                  in case get_token a3 of
                       (Inl e, a4) \<Rightarrow> (Inl e, a4)
                     | (Inr tok', a4) \<Rightarrow>
                         (case client_request method path tok' a4 of
                            (Inl e, a5) \<Rightarrow> (Inl e, a5)
                          | (Inr resp', a5) \<Rightarrow> (raise_for_status resp', a5)))
               else (raise_for_status resp, a2)))"

text \<open>
  An adapter holding a credential that is not about to expire, facing a server that
  answers the first API call with 401 and the second with 200, and a server that
  answers both with 401; the token endpoint issues \<open>t1\<close>.
\<close>

definition ex_token_reply :: response where
  "ex_token_reply = \<lparr>status_code = 201, body = JObj [(''token'', JStr ''t1'')]\<rparr>"

definition ex_401 :: response where
  "ex_401 = \<lparr>status_code = 401, body = JObj [(''detail'', JStr ''expired'')]\<rparr>"

definition ex_200 :: response where
  "ex_200 = \<lparr>status_code = 200, body = JObj [(''results'', JArr [])]\<rparr>"

definition ex_adapter :: AWXAdapter where
  "ex_adapter = \<lparr>token = Some (JStr ''t0''), token_expires = Some 4000,
     token_replies = [Inr ex_token_reply, Inr ex_token_reply],
     api_replies = [Inr ex_401, Inr ex_200, Inr ex_200],
     sent = [], wall = (\<lambda>n. 1000 + real n), reads = 0\<rparr>"

definition ex_adapter_locked :: AWXAdapter where
  "ex_adapter_locked = ex_adapter\<lparr>api_replies := [Inr ex_401, Inr ex_401, Inr ex_200]\<rparr>"

section \<open>The AWX agent: main.py\<close>

text \<open>
  The workers call the adapter's public methods. Here each method is given by its
  outcome, what the call returns or raises, as a function of its arguments; the HTTP
  traffic behind it is the subject of the previous section. Of a \<open>JobTemplateInfo\<close> and
  of the dictionary that AWX returns for a job, only the members that the workers read
  are kept. \<open>get_orchestrator\<close> is the exception, if any, with which building the
  orchestrator fails.
\<close>

record JobTemplateInfo =
  id' :: int
  name :: string

record job_data =
  data_id :: "int option"
  data_status :: "string option"
  job_explanation :: "string option"

record awx_api =
  search_job_template :: "string \<Rightarrow> exn + JobTemplateInfo option"
  get_job_template :: "int \<Rightarrow> exn + JobTemplateInfo option"
  launch_job_template ::
    "int \<Rightarrow> (string \<times> json) list \<Rightarrow> int option \<Rightarrow> string option \<Rightarrow> exn + job_data"
  wait_for_job :: "int \<Rightarrow> exn + job_data"
  get_job_output :: "int \<Rightarrow> exn + string"
  get_orchestrator :: "exn option"

subsection \<open>Text of messages\<close>

fun digits :: "nat \<Rightarrow> string" where
  "digits n =
     (if n < 10 then [char_of (48 + n)] else digits (n div 10) @ [char_of (48 + n mod 10)])"

declare digits.simps [simp del]

definition str_int :: "int \<Rightarrow> string" where
  "str_int i = (if i < 0 then CHR ''-'' # digits (nat (- i)) else digits (nat i))"

definition str_opt :: "string option \<Rightarrow> string" where
  "str_opt x = (case x of None \<Rightarrow> ''None'' | Some s \<Rightarrow> s)"

text \<open>
  \<open>str(e)\<close>. The text that \<open>httpx\<close> and the standard library give their own exceptions
  is abridged.
\<close>

fun str_exn :: "exn \<Rightarrow> string" where
  "str_exn (ValueError s) = s"
| "str_exn (KeyError s) = s"
| "str_exn OSError = ''OSError''"
| "str_exn TimeoutError = ''timed out''"
| "str_exn (HTTPStatusError c) = ''HTTP status '' @ digits c"
| "str_exn ConnectError = ''connection failed''"
| "str_exn TypeError = ''TypeError''"
| "str_exn AttributeError = ''AttributeError''"


subsection \<open>process_awx_job\<close>

text \<open>
  The statements of a \<open>try\<close> body in sequence: the first exception ends the body and is
  handed, with the state reached, to whoever handles it.
\<close>

definition then_do ::
  "(exn + 'a) \<times> manager \<Rightarrow> ('a \<Rightarrow> manager \<Rightarrow> (exn + 'b) \<times> manager)
     \<Rightarrow> (exn + 'b) \<times> manager" where
  "then_do x f = (case x of (Inl e, m) \<Rightarrow> (Inl e, m) | (Inr v, m) \<Rightarrow> f v m)"


definition orch_assign ::
  "ref \<Rightarrow> (OrchestrationJob \<Rightarrow> OrchestrationJob) \<Rightarrow> manager \<Rightarrow> (exn + unit) \<times> manager" where
  "orch_assign r f m =
     (case heap m r of
        Orch a \<Rightarrow> (Inr (), m\<lparr>heap := (heap m)(r := Orch (f a))\<rparr>)
      | AWX _ \<Rightarrow> (Inl (ValueError ''object has no field''), m))"


text \<open>\<open>if not x\<close> for an optional integer: \<open>None\<close> and 0 are false.\<close>

definition nonzero :: "int option \<Rightarrow> int option" where
  "nonzero x = (case x of None \<Rightarrow> None | Some i \<Rightarrow> if i = 0 then None else Some i)"








section \<open>The AWX agent: graph.py\<close>

text \<open>
  A task dictionary, by the keys that the workflow ever sets: \<open>action\<close> and
  \<open>description\<close> from the start, the others once a node assigns them.
\<close>

record task =
  action :: string
  description :: string
  task_awx_job_id :: "int option"
  task_status :: "string option"
  task_error :: "string option"
  awx_status :: "string option"
  completed :: "bool option"

definition new_task :: "string \<Rightarrow> string \<Rightarrow> task" where
  "new_task a d = \<lparr>action = a, description = d, task_awx_job_id = None, task_status = None,
                    task_error = None, awx_status = None, completed = None\<rparr>"

text \<open>The dictionary itself, as it is stored in \<open>decomposed_tasks\<close> of the job.\<close>

definition task_dict :: "task \<Rightarrow> (string \<times> json) list" where
  "task_dict t =
     [(''action'', JStr (action t)), (''description'', JStr (description t))] @
     (case task_awx_job_id t of None \<Rightarrow> [] | Some i \<Rightarrow> [(''awx_job_id'', JInt i)]) @
     (case task_status t of None \<Rightarrow> [] | Some s \<Rightarrow> [(''status'', JStr s)]) @
     (case task_error t of None \<Rightarrow> [] | Some s \<Rightarrow> [(''error'', JStr s)]) @
     (case awx_status t of None \<Rightarrow> [] | Some s \<Rightarrow> [(''awx_status'', JStr s)]) @
     (case completed t of None \<Rightarrow> [] | Some b \<Rightarrow> [(''completed'', JBool b)])"

text \<open>\<open>GraphState\<close>; the \<open>messages\<close> channel is never used by the nodes and is left out.\<close>

record GraphState =
  user_request :: string
  decomposed_tasks :: "task list"
  current_task_index :: nat
  awx_job_ids :: "int list"
  completed_tasks :: "task list"
  error :: "string option"
  context' :: "(string \<times> json) list"

text \<open>\<open>str.lower\<close> on ASCII letters, \<open>x in s\<close> for strings, and \<open>str.replace\<close> of one character.\<close>

definition lower_char :: "char \<Rightarrow> char" where
  "lower_char c =
     (if 65 \<le> (of_char c :: nat) \<and> (of_char c :: nat) \<le> 90
      then char_of ((of_char c :: nat) + 32) else c)"

definition lower :: "string \<Rightarrow> string" where
  "lower s = map lower_char s"

fun starts_with :: "string \<Rightarrow> string \<Rightarrow> bool" where
  "starts_with [] _ = True"
| "starts_with (x # xs) [] = False"
| "starts_with (x # xs) (y # ys) = (x = y \<and> starts_with xs ys)"

fun contains :: "string \<Rightarrow> string \<Rightarrow> bool" where
  "contains x [] = (x = [])"
| "contains x (c # cs) = (starts_with x (c # cs) \<or> contains x cs)"

definition replace_char :: "char \<Rightarrow> char \<Rightarrow> string \<Rightarrow> string" where
  "replace_char a b s = map (\<lambda>c. if c = a then b else c) s"

definition analyze_request :: "GraphState \<Rightarrow> GraphState" where
  "analyze_request state =
     (let req = lower (user_request state);
          tasks =
            (if contains ''deploy'' req \<and> contains ''kubernetes'' req then
               [new_task ''provision-k8s-cluster'' ''Provision Kubernetes cluster'',
                new_task ''configure-k8s'' ''Configure Kubernetes'']
             else if contains ''install'' req then
               (let package =
                      (if contains ''nginx'' req then ''nginx''
                       else if contains ''docker'' req then ''docker''
                       else ''nginx'')
                in [new_task (''install-'' @ package) (''Install '' @ package)])
             else [new_task ''execute-request'' (user_request state)])
      in state\<lparr>GraphState.decomposed_tasks := tasks, current_task_index := 0,
               awx_job_ids := [], completed_tasks := []\<rparr>)"

text \<open>The \<open>try\<close> body of \<open>launch_subtask\<close>: the id of the launched AWX job, or the exception.\<close>

definition launch_attempt :: "awx_api \<Rightarrow> GraphState \<Rightarrow> task \<Rightarrow> exn + int" where
  "launch_attempt api state t =
     (let template_name = ''test-'' @ replace_char CHR ''_'' CHR ''-'' (action t);
          missing = Inl (ValueError (''Could not find job template for: '' @ action t));
          launch = (\<lambda>template.
            case launch_job_template api (id' template) (GraphState.context' state)
                   None None of
              Inl e \<Rightarrow> Inl e
            | Inr job_data \<Rightarrow>
                (case nonzero (data_id job_data) of
                   None \<Rightarrow> Inl (ValueError ''AWX did not return a job ID'')
                 | Some new_id \<Rightarrow> Inr new_id))
      in case search_job_template api template_name of
           Inl e \<Rightarrow> Inl e
         | Inr (Some template) \<Rightarrow> launch template
         | Inr None \<Rightarrow>
             (case search_job_template api ''test-hello-world'' of
                Inl e \<Rightarrow> Inl e
              | Inr None \<Rightarrow> missing
              | Inr (Some template) \<Rightarrow> launch template))"

definition launch_subtask :: "awx_api \<Rightarrow> GraphState \<Rightarrow> GraphState" where
  "launch_subtask api state =
     (if current_task_index state \<ge> length (GraphState.decomposed_tasks state) then state
      else
        (let i = current_task_index state;
             t = GraphState.decomposed_tasks state ! i
         in case launch_attempt api state t of
              Inr new_id \<Rightarrow>
                state\<lparr>awx_job_ids := awx_job_ids state @ [new_id],
                       GraphState.decomposed_tasks := (GraphState.decomposed_tasks state)
                         [i := t\<lparr>task_awx_job_id := Some new_id,
                                  task_status := Some ''launched''\<rparr>]\<rparr>
            | Inl e \<Rightarrow>
                state\<lparr>GraphState.decomposed_tasks := (GraphState.decomposed_tasks state)
                         [i := t\<lparr>task_status := Some ''failed'',
                                  task_error := Some (str_exn e)\<rparr>],
                       error := Some (''Failed to launch task '' @ action t @ '': '' @ str_exn e)\<rparr>))"

definition wait_for_completion :: "awx_api \<Rightarrow> GraphState \<Rightarrow> GraphState" where
  "wait_for_completion api state =
     (if awx_job_ids state = [] then state
      else
        (let current_job_id = last (awx_job_ids state);
             i = current_task_index state
         in case wait_for_job api current_job_id of
              Inl e \<Rightarrow>
                state\<lparr>error := Some (''Error waiting for job '' @ str_int current_job_id
                                       @ '': '' @ str_exn e)\<rparr>
            | Inr job_data \<Rightarrow>
                (let status = (case data_status job_data of None \<Rightarrow> ''unknown'' | Some s \<Rightarrow> s)
                 in if i \<ge> length (GraphState.decomposed_tasks state) then
                      state\<lparr>error := Some (''Error waiting for job '' @ str_int current_job_id
                                             @ '': list index out of range'')\<rparr>
                    else
                      (let t = GraphState.decomposed_tasks state ! i;
                           state1 = state\<lparr>GraphState.decomposed_tasks :=
                                      (GraphState.decomposed_tasks state)
                                        [i := t\<lparr>awx_status := Some status,
                                                 completed := Some True\<rparr>]\<rparr>
                       in if status = ''successful'' then
                            state1\<lparr>current_task_index := i + 1\<rparr>
                          else
                            state1\<lparr>error := Some (''Job '' @ str_int current_job_id
                                       @ '' failed with status: '' @ status)\<rparr>))))"

definition handle_callback :: "GraphState \<Rightarrow> GraphState" where
  "handle_callback state = state"

text \<open>\<open>if state.get("error")\<close> is false for \<open>None\<close> and for the empty string.\<close>

definition check_next_task :: "GraphState \<Rightarrow> string" where
  "check_next_task state =
     (if truthy (error state) then ''finalize''
      else if current_task_index state < length (GraphState.decomposed_tasks state)
      then ''launch_subtask''
      else ''finalize'')"

text \<open>
  \<open>finalize\<close> marks the tasks in place and appends the same dictionaries to
  \<open>completed_tasks\<close>.
\<close>

definition finalize :: "GraphState \<Rightarrow> GraphState" where
  "finalize state =
     (let done = map (\<lambda>t. if task_status t \<noteq> Some ''failed''
                            then t\<lparr>task_status := Some ''completed''\<rparr> else t)
                     (GraphState.decomposed_tasks state)
      in state\<lparr>GraphState.decomposed_tasks := done,
               completed_tasks := completed_tasks state @ done\<rparr>)"

text \<open>
  The compiled graph after its entry node: \<open>launch_subtask\<close>, \<open>wait_for_completion\<close>,
  \<open>handle_callback\<close>, and then either the same again or \<open>finalize\<close>, as
  \<open>check_next_task\<close> decides. A round that is followed by another has moved
  \<open>current_task_index\<close> one task forward, so the rounds end. (The graph library also
  stops a run after 25 steps; with the one or two tasks of \<open>analyze_request\<close> a run
  takes at most 8, and the limit is not modelled.)
\<close>

function run_tasks :: "awx_api \<Rightarrow> GraphState \<Rightarrow> GraphState" where
  "run_tasks api state =
     (let state1 = handle_callback (wait_for_completion api (launch_subtask api state))
      in if check_next_task state1 = ''launch_subtask'' then run_tasks api state1
         else finalize state1)"
  by pat_completeness auto
termination
proof (relation "measure (\<lambda>(api, state).
         length (GraphState.decomposed_tasks state) - current_task_index state)")
  show "wf (measure (\<lambda>(api, state).
         length (GraphState.decomposed_tasks state) - current_task_index state))"
    by simp
next
  fix api :: awx_api and state x :: GraphState
  assume x: "x = handle_callback (wait_for_completion api (launch_subtask api state))"
    and c: "check_next_task x = ''launch_subtask''"
  let ?l = "launch_subtask api state"
  have l: "length (GraphState.decomposed_tasks ?l) = length (GraphState.decomposed_tasks state)"
    "current_task_index ?l = current_task_index state"
    by (simp_all add: launch_subtask_def Let_def split: sum.splits)
  have e: "\<not> truthy (error x)"
    and i: "current_task_index x < length (GraphState.decomposed_tasks x)"
    using c by (simp_all add: check_next_task_def split: if_splits)
  have w: "length (GraphState.decomposed_tasks x) = length (GraphState.decomposed_tasks ?l)"
    by (simp add: x handle_callback_def wait_for_completion_def Let_def split: sum.splits)
  have s: "current_task_index x = Suc (current_task_index ?l)"
    using e i w
    by (auto simp: x handle_callback_def wait_for_completion_def launch_subtask_def Let_def
        truthy_def split: sum.splits if_splits)
  show "((api, x), (api, state)) \<in> measure (\<lambda>(api, state).
         length (GraphState.decomposed_tasks state) - current_task_index state)"
    using i w l s by simp
qed

declare run_tasks.simps [simp del]

section \<open>The AWX agent: llm_orchestrator.py and process_orchestration_job\<close>

text \<open>The dictionary that \<open>orchestrate\<close> returns.\<close>

record orchestration_result =
  res_response :: string
  res_steps :: "task list"
  res_awx_jobs :: "int list"
  res_completed_tasks :: "task list"
  res_error :: "string option"

definition join_lines :: "string list \<Rightarrow> string" where
  "join_lines xs = (case xs of [] \<Rightarrow> [] | y # ys \<Rightarrow> foldl (\<lambda>acc x. acc @ [CHR 0x0A] @ x) y ys)"

text \<open>
  \<open>_orchestrate_with_graph\<close>: the workflow is run from the initial state, entry node
  first, and its final state is reported. A failed step is reported in the \<open>error\<close>
  member and in the text of the response.
\<close>

definition orchestrate_with_graph ::
  "awx_api \<Rightarrow> string \<Rightarrow> (string \<times> json) list \<Rightarrow> orchestration_result" where
  "orchestrate_with_graph api req ctx =
     (let initial_state = \<lparr>user_request = req, GraphState.decomposed_tasks = [],
            current_task_index = 0, awx_job_ids = [], completed_tasks = [], error = None,
            GraphState.context' = ctx\<rparr>;
          final_state = run_tasks api (analyze_request initial_state);
          response_parts =
            [''Orchestrated request: '' @ req] @
            (if truthy (error final_state) then [''Error: '' @ str_opt (error final_state)]
             else
               [''Completed '' @ str_int (int (length (completed_tasks final_state)))
                  @ '' task(s)''] @
               map (\<lambda>t. ''  - '' @ description t @ '': ''
                          @ (case task_status t of None \<Rightarrow> ''unknown'' | Some s \<Rightarrow> s))
                   (completed_tasks final_state))
      in \<lparr>res_response = join_lines response_parts,
          res_steps = GraphState.decomposed_tasks final_state,
          res_awx_jobs = awx_job_ids final_state,
          res_completed_tasks = completed_tasks final_state,
          res_error = error final_state\<rparr>)"

text \<open>
  \<open>orchestrate\<close> with \<open>use_graph\<close> at its default. Its handler for exceptions of the
  workflow has nothing to handle here: every node catches what the adapter raises.
\<close>

definition orchestrate ::
  "awx_api \<Rightarrow> string \<Rightarrow> (string \<times> json) list \<Rightarrow> orchestration_result" where
  "orchestrate api req ctx = orchestrate_with_graph api req ctx"

text \<open>
  \<open>AWXJob(request=JobTemplateRequest(job_template_id=None,
  job_template_name="Orchestrated", extra_vars={}), awx_job_id=awx_job_id)\<close>, with the
  default factories of \<open>job_id\<close> and \<open>requested_at\<close>.
\<close>

definition tracking_job :: "int \<Rightarrow> manager \<Rightarrow> AWXJob \<times> manager" where
  "tracking_job awx_id m =
     (let (jid, m1) = uuid4 m; (now, m2) = utcnow m1
      in (\<lparr>AWXJob.job_id = jid, AWXJob.status = RECEIVED, AWXJob.requested_at = now,
           AWXJob.completed_at = None,
           AWXJob.request = \<lparr>job_template_id = None, job_template_name = Some ''Orchestrated'',
              extra_vars = [], inventory_id = None, limit = None,
              JobTemplateRequest.metadata = []\<rparr>,
           AWXJob.message = None, awx_job_id = Some awx_id, awx_job_status = None,
           awx_job_output = None, awx_job_facts = None, awx_error = None,
           parent_job_id = None, child_job_ids = [], step_number = None,
           total_steps = None\<rparr>, m2))"

text \<open>The loop of lines 338 to 348.\<close>

fun track_jobs :: "ref \<Rightarrow> int list \<Rightarrow> manager \<Rightarrow> (exn + unit) \<times> manager" where
  "track_jobs r [] m = (Inr (), m)"
| "track_jobs r (awx_id # rest) m =
     (let (awx_job, m1) = tracking_job awx_id m
      in then_do (orch_assign r (\<lambda>j. j\<lparr>awx_jobs := awx_jobs j @ [awx_job]\<rparr>) m1)
           (\<lambda>_ m. track_jobs r rest m))"

text \<open>\<open>job.request\<close> of the worker's orchestration job.\<close>

definition orch_request :: "ref \<Rightarrow> manager \<Rightarrow> (exn + OrchestrationRequest) \<times> manager" where
  "orch_request r m =
     (case heap m r of
        Orch j \<Rightarrow> (Inr (OrchestrationJob.request j), m)
      | AWX _ \<Rightarrow> (Inl AttributeError, m))"

text \<open>The body of the \<open>try\<close> of \<open>process_orchestration_job\<close>.\<close>

definition orchestration_body ::
  "awx_api \<Rightarrow> uuid \<Rightarrow> ref \<Rightarrow> manager \<Rightarrow> (exn + unit) \<times> manager" where
  "orchestration_body api jid r m =
     then_do (update_status jid VALIDATING (Some ''Analyzing request with LLM.'') [] m) (\<lambda>_ m.
     then_do (case get_orchestrator api of Some e \<Rightarrow> (Inl e, m) | None \<Rightarrow> (Inr (), m)) (\<lambda>_ m.
     then_do (orch_request r m) (\<lambda>rq m.
       let result = orchestrate api (OrchestrationRequest.request rq)
                      (OrchestrationRequest.context' rq)
       in
     then_do (orch_assign r (\<lambda>j. j\<lparr>llm_response := Some (res_response result)\<rparr>) m) (\<lambda>_ m.
     then_do (orch_assign r
                (\<lambda>j. j\<lparr>OrchestrationJob.decomposed_tasks := map task_dict (res_steps result)\<rparr>) m)
       (\<lambda>_ m.
     then_do
       (if res_awx_jobs result \<noteq> [] then
          then_do (update_status jid MONITORING
                     (Some (''Orchestration completed. Launched ''
                            @ str_int (int (length (res_awx_jobs result))) @ '' AWX job(s).''))
                     [] m)
            (\<lambda>_ m. track_jobs r (res_awx_jobs result) m)
        else
          then_do (update_status jid COMPLETED
                     (Some ''Orchestration completed (no AWX jobs launched).'') [] m)
            (\<lambda>_ m. (Inr (), m)))
       (\<lambda>_ m.
          if job_status (heap m r) \<noteq> COMPLETED then
            then_do (update_status jid COMPLETED
                       (Some ''Orchestration completed successfully.'') [] m)
              (\<lambda>_ m. (Inr (), m))
          else (Inr (), m)))))))"

text \<open>
  \<open>process_orchestration_job\<close>, run on its own. The only way to FAILED is an exception
  of the body; the \<open>error\<close> member of the orchestrator's result is not looked at.
\<close>

definition process_orchestration_job ::
  "awx_api \<Rightarrow> uuid \<Rightarrow> manager \<Rightarrow> (exn + unit) \<times> manager" where
  "process_orchestration_job api jid m =
     (case get_job jid m of
        (None, m) \<Rightarrow> (Inr (), m)
      | (Some r, m) \<Rightarrow>
          (case heap m r of
             AWX _ \<Rightarrow> (Inr (), m)
           | Orch _ \<Rightarrow>
               (case orchestration_body api jid r m of
                  (Inr _, m) \<Rightarrow> (Inr (), m)
                | (Inl e, m) \<Rightarrow>
                    then_do (orch_assign r (\<lambda>j. j\<lparr>llm_error := Some (str_exn e)\<rparr>) m) (\<lambda>_ m.
                    then_do (update_status jid FAILED
                               (Some (''Orchestration failed: '' @ str_exn e)) [] m)
                      (\<lambda>_ m. (Inr (), m))))))"

section \<open>Concrete backends and jobs for the workers\<close>

definition ex_template :: JobTemplateInfo where
  "ex_template = \<lparr>id' = 42, name = ''deploy-web''\<rparr>"

text \<open>
  A backend that knows one template under every name, launches it as AWX job 7 and
  reports that job successful.
\<close>

definition ex_api :: awx_api where
  "ex_api = \<lparr>search_job_template = (\<lambda>_. Inr (Some ex_template)),
     get_job_template = (\<lambda>_. Inr (Some ex_template)),
     launch_job_template = (\<lambda>_ _ _ _. Inr \<lparr>data_id = Some 7, data_status = Some ''pending'',
                                             job_explanation = None\<rparr>),
     wait_for_job = (\<lambda>_. Inr \<lparr>data_id = Some 7, data_status = Some ''successful'',
                               job_explanation = None\<rparr>),
     get_job_output = (\<lambda>_. Inr ''ok''),
     get_orchestrator = None\<rparr>"

text \<open>The same backend, refusing every launch.\<close>

definition ex_api_refusing :: awx_api where
  "ex_api_refusing = ex_api\<lparr>launch_job_template := (\<lambda>_ _ _ _. Inl (HTTPStatusError 400))\<rparr>"

text \<open>An orchestration job whose request decomposes into two steps.\<close>

definition ex_two_steps :: OrchestrationJob where
  "ex_two_steps = ex_orch\<lparr>OrchestrationJob.request :=
     ex_orch_request\<lparr>OrchestrationRequest.request := ''Deploy nginx on Kubernetes''\<rparr>\<rparr>"

definition ex_two_steps_manager :: manager where
  "ex_two_steps_manager = ex_manager\<lparr>heap := (\<lambda>_. Orch ex_two_steps)\<rparr>"

section \<open>What a job was created with\<close>

text \<open>
  The request of a job of either class, the same with the template id blanked, and the
  keyword arguments of \<open>update_status\<close> that name the request or \<open>requested_at\<close>.
\<close>

fun payload :: "job \<Rightarrow> JobTemplateRequest + OrchestrationRequest" where
  "payload (AWX a) = Inl (AWXJob.request a)"
| "payload (Orch j) = Inr (OrchestrationJob.request j)"







text \<open>
  An orchestration job that a worker can carry to its end: it is in memory under its
  id, it has no \<open>completed_at\<close> yet (so no purge drops it), and the disk can be written.
\<close>

definition orch_live :: "uuid \<Rightarrow> ref \<Rightarrow> manager \<Rightarrow> bool" where
  "orch_live jid r m =
     (jobs m jid = Some r \<and> \<not> write_fails m \<and>
      (case heap m r of
         Orch j \<Rightarrow> OrchestrationJob.completed_at j = None
       | AWX _ \<Rightarrow> False))"

text \<open>
  A job whose ids print as canonical UUID text, which every \<open>uuid.UUID\<close> does; and the
  job that the nested \<open>try\<close> of \<open>get_job\<close> makes of the record of a job: an
  \<open>AWXJob\<close> is read back as it is, an \<open>OrchestrationJob\<close> is read by
  \<open>AWXJob.parse_raw\<close> as the \<open>AWXJob\<close> with the same \<open>job_id\<close>, \<open>status\<close>,
  \<open>requested_at\<close>, \<open>completed_at\<close> and \<open>message\<close>, a request that keeps the metadata
  only, and defaults everywhere else.
\<close>

fun canonical_ids :: "job \<Rightarrow> bool" where
  "canonical_ids (AWX a) =
     (canonical_uuid (str_uuid (AWXJob.job_id a)) \<and>
      (case parent_job_id a of None \<Rightarrow> True | Some u \<Rightarrow> canonical_uuid (str_uuid u)) \<and>
      list_all (\<lambda>u. canonical_uuid (str_uuid u)) (child_job_ids a))"
| "canonical_ids (Orch j) = canonical_uuid (str_uuid (OrchestrationJob.job_id j))"

fun read_back :: "job \<Rightarrow> job" where
  "read_back (AWX a) = AWX a"
| "read_back (Orch j) =
     AWX \<lparr>AWXJob.job_id = OrchestrationJob.job_id j,
          AWXJob.status = OrchestrationJob.status j,
          AWXJob.requested_at = OrchestrationJob.requested_at j,
          AWXJob.completed_at = OrchestrationJob.completed_at j,
          AWXJob.request = \<lparr>job_template_id = None, job_template_name = None,
             extra_vars = [], inventory_id = None, limit = None,
             JobTemplateRequest.metadata =
               OrchestrationRequest.metadata (OrchestrationJob.request j)\<rparr>,
          AWXJob.message = OrchestrationJob.message j,
          awx_job_id = None, awx_job_status = None, awx_job_output = None,
          awx_job_facts = None, awx_error = None, parent_job_id = None, child_job_ids = [],
          step_number = None, total_steps = None\<rparr>"

section \<open>Properties of the AWX job manager\<close>

lemmas codec_defs = AWXJob_json_def JobTemplateRequest_json_def OrchestrationJob_json_def
  OrchestrationRequest_json_def j_uuid_def j_opt_def j_dict_str_def required_def
  with_default_def optional_def obj_get_def canonical_uuid_def hex_digit_def
  AWXAgentJobStatus_of_def AWXJobStatus_of_def

lemmas ex_defs = ex_id_def ex_id_old_def ex_id_fresh_def ex_request_def ex_awx_def
  ex_manager_def ex_done_def ex_cold_def ex_corrupt_def ex_old_def ex_fresh_def ex_purge_def
  ex_orch_request_def ex_orch_def ex_orch_manager_def

lemmas store_defs = update_status_def assign_fields_def truthy_def utcnow_def poke_def
  persist_job_def maybe_purge_def purge_old_jobs_def expired_def get_job_def alloc_def
  cache_path_def glob_json_def parse_cached_def timedelta_minutes_def timedelta_seconds_def

subsection \<open>What a purge check leaves alone\<close>

lemma heap_purge_old_jobs: "heap (purge_old_jobs m) = heap m"
  by (simp add: purge_old_jobs_def utcnow_def Let_def)


lemma heap_maybe_purge: "heap (maybe_purge m) = heap m"
  by (simp add: maybe_purge_def utcnow_def Let_def heap_purge_old_jobs)




subsection \<open>What the assignments of \<open>update_status\<close> leave alone\<close>



lemma setattrs_keeps_job_id: "job_job_id (snd (setattrs j kwargs)) = job_job_id j"
proof (induction kwargs arbitrary: j)
  case Nil
  then show ?case by simp
next
  case (Cons k ks)
  then show ?case
    by (cases j; cases k) auto
qed

lemma setattrs_keeps_status: "job_status (snd (setattrs j kwargs)) = job_status j"
proof (induction kwargs arbitrary: j)
  case Nil
  then show ?case by simp
next
  case (Cons k ks)
  then show ?case
    by (cases j; cases k) auto
qed

lemma assign_fields_status: "job_status (snd (assign_fields st msg kwargs j)) = st"
  by (cases j) (simp_all add: assign_fields_def Let_def setattrs_keeps_status)

lemma status_set_completed_at [simp]: "job_status (set_completed_at x j) = job_status j"
  by (cases j) simp_all

lemma completed_at_set_completed_at [simp]: "job_completed_at (set_completed_at x j) = x"
  by (cases j) simp_all

lemma ex_parse: "parse_cached (Json_text (AWXJob_json ex_awx)) = Some (AWX ex_awx)"
  by (simp add: parse_cached_def codec_defs ex_defs)
lemma ex_parse_old: "parse_cached (Json_text (AWXJob_json ex_old)) = Some (AWX ex_old)"
  by (simp add: parse_cached_def codec_defs ex_defs)
lemma ex_parse_fresh: "parse_cached (Json_text (AWXJob_json ex_fresh)) = Some (AWX ex_fresh)"
  by (simp add: parse_cached_def codec_defs ex_defs)

subsection \<open>Transitions\<close>

text \<open>
  C1 (as the code has it). \<open>update_status\<close> has no guard for a job that is already
  terminal. The job below is COMPLETED with \<open>completed_at = 2000\<close>; a transition to
  FAILED succeeds, leaves it FAILED and stamps \<open>completed_at\<close> again with the clock's
  reading, 5000. So a terminal state is not sticky and \<open>completed_at\<close> is not kept.
\<close>

theorem terminal_transition_overwrites_counterexample:
  "jobs ex_done ex_id = Some 0 \<and>
   job_status (heap ex_done 0) = COMPLETED \<and>
   job_completed_at (heap ex_done 0) = Some 2000 \<and>
   fst (update_status ex_id FAILED None [] ex_done) = Inr (Some 0) \<and>
   job_status (heap (snd (update_status ex_id FAILED None [] ex_done)) 0) = FAILED \<and>
   job_completed_at (heap (snd (update_status ex_id FAILED None [] ex_done)) 0) = Some 5000"
  by (simp add: ex_defs store_defs Let_def)

text \<open>
  C1, amended. For a job in memory that is already in a terminal state and a terminal
  state \<open>T2\<close> whose assignments are accepted, \<open>update_status\<close> leaves the job in \<open>T2\<close>
  (the last transition wins) and sets \<open>completed_at\<close> to the reading the clock gives
  during the call.
\<close>

theorem terminal_transition_last_wins:
  assumes "jobs m jid = Some r"
    and "job_status (heap m r) \<in> {COMPLETED, FAILED, CANCELED}"
    and "T2 \<in> {COMPLETED, FAILED, CANCELED}"
    and "fst (assign_fields T2 msg kwargs (heap m r)) = None"
  shows "job_status (heap (snd (update_status jid T2 msg kwargs m)) r) = T2 \<and>
         job_completed_at (heap (snd (update_status jid T2 msg kwargs m)) r)
           = Some (clock m (ticks m))"
proof -
  obtain j where a: "assign_fields T2 msg kwargs (heap m r) = (None, j)"
    using assms(4) by (cases "assign_fields T2 msg kwargs (heap m r)") auto
  have s: "job_status j = T2"
    using assign_fields_status [of T2 msg kwargs "heap m r"] a by simp
  have h: "heap (snd (update_status jid T2 msg kwargs m)) r
      = set_completed_at (Some (clock m (ticks m))) j"
    using assms(1,3) a
    by (auto simp: update_status_def utcnow_def poke_def persist_job_def Let_def
        heap_maybe_purge)
  show ?thesis by (simp add: h s)
qed

theorem terminal_transition_last_wins_witness:
  "jobs ex_done ex_id = Some 0 \<and>
   job_status (heap ex_done 0) = COMPLETED \<and>
   fst (assign_fields CANCELED (Some ''stop'') [] (heap ex_done 0)) = None \<and>
   job_status (heap (snd (update_status ex_id CANCELED (Some ''stop'') [] ex_done)) 0)
     = CANCELED \<and>
   job_completed_at (heap (snd (update_status ex_id CANCELED (Some ''stop'') [] ex_done)) 0)
     = Some (clock ex_done (ticks ex_done))"
proof -
  have a: "jobs ex_done ex_id = Some 0" by (simp add: ex_defs)
  have b: "job_status (heap ex_done 0) = COMPLETED" by (simp add: ex_defs)
  have c: "fst (assign_fields CANCELED (Some ''stop'') [] (heap ex_done 0)) = None"
    by (simp add: ex_defs assign_fields_def truthy_def)
  from terminal_transition_last_wins [of ex_done ex_id 0 CANCELED "Some ''stop''" "[]"] a b c
  show ?thesis by simp
qed



text \<open>
  C8 (as the code has it). \<open>_persist_job\<close> calls \<open>write_text\<close> with no handler around it,
  and neither does \<open>update_status\<close>: on a disk that cannot be written, the transition of
  the job below to COMPLETED ends in \<open>OSError\<close> instead of returning the record.
\<close>

theorem write_failure_propagates_counterexample:
  "jobs (ex_manager\<lparr>write_fails := True\<rparr>) ex_id = Some 0 \<and>
   fst (update_status ex_id COMPLETED (Some ''done'') [] (ex_manager\<lparr>write_fails := True\<rparr>))
     = Inl OSError"
  by (simp add: ex_defs store_defs Let_def)

text \<open>
  C8, amended. When the terminal flush cannot write, \<open>update_status\<close> raises the
  \<open>OSError\<close> to its caller. The object in memory has by then taken the new state, the
  message, the keyword arguments and the \<open>completed_at\<close> stamp; the disk, the map of
  jobs and \<open>last_purge\<close> are as before (no purge check runs), and nothing is logged.
\<close>

theorem write_failure_propagates:
  assumes "jobs m jid = Some r"
    and "st \<in> {COMPLETED, FAILED, CANCELED}"
    and "assign_fields st msg kwargs (heap m r) = (None, j)"
    and "write_fails m"
  shows "update_status jid st msg kwargs m =
           (Inl OSError,
            m\<lparr>heap := (heap m)(r := set_completed_at (Some (clock m (ticks m))) j),
              ticks := Suc (ticks m)\<rparr>)"
  using assms
  by (auto simp: update_status_def utcnow_def poke_def persist_job_def Let_def)

theorem write_failure_propagates_witness:
  "jobs (ex_manager\<lparr>write_fails := True\<rparr>) ex_id = Some 0 \<and>
   assign_fields FAILED (Some ''boom'') [] (heap (ex_manager\<lparr>write_fails := True\<rparr>) 0)
     = (None, AWX (ex_awx\<lparr>AWXJob.status := FAILED, AWXJob.message := Some ''boom''\<rparr>)) \<and>
   write_fails (ex_manager\<lparr>write_fails := True\<rparr>) \<and>
   fst (update_status ex_id FAILED (Some ''boom'') [] (ex_manager\<lparr>write_fails := True\<rparr>))
     = Inl OSError \<and>
   disk (snd (update_status ex_id FAILED (Some ''boom'') [] (ex_manager\<lparr>write_fails := True\<rparr>)))
     = Map.empty \<and>
   job_status (heap (snd (update_status ex_id FAILED (Some ''boom'') []
       (ex_manager\<lparr>write_fails := True\<rparr>))) 0) = FAILED"
proof -
  let ?m = "ex_manager\<lparr>write_fails := True\<rparr>"
  have a: "jobs ?m ex_id = Some 0" by (simp add: ex_defs)
  have b: "assign_fields FAILED (Some ''boom'') [] (heap ?m 0)
     = (None, AWX (ex_awx\<lparr>AWXJob.status := FAILED, AWXJob.message := Some ''boom''\<rparr>))"
    by (simp add: ex_manager_def assign_fields_def truthy_def)
  have c: "write_fails ?m" by simp
  have d: "disk ?m = Map.empty" by (simp add: ex_manager_def)
  have t: "FAILED \<in> {COMPLETED, FAILED, CANCELED}" by simp
  note w = write_failure_propagates [OF a t b c]
  show ?thesis using a b c d by (simp add: w)
qed

text \<open>
  C10. For an id that is not in the in-memory map, \<open>update_status\<close> returns \<open>None\<close> and
  leaves the whole state as it was: memory, disk, clock and purge time. This holds also
  when the cache holds a valid file for the id, where \<open>get_job\<close> loads the record and
  returns it.
\<close>

theorem update_status_never_hydrates:
  "jobs m jid = None \<Longrightarrow>
     update_status jid st msg kwargs m = (Inr None, m) \<and>
     (disk m (cache_path jid) = Some text \<longrightarrow> parse_cached text = Some j \<longrightarrow>
        (\<exists>r. fst (get_job jid m) = Some r))"
  by (simp add: update_status_def get_job_def split: prod.splits)

theorem update_status_never_hydrates_witness:
  "jobs ex_cold ex_id = None \<and>
   disk ex_cold (cache_path ex_id) = Some (Json_text (AWXJob_json ex_awx)) \<and>
   parse_cached (Json_text (AWXJob_json ex_awx)) = Some (AWX ex_awx) \<and>
   update_status ex_id FAILED (Some ''late'') [] ex_cold = (Inr None, ex_cold) \<and>
   (\<exists>r. fst (get_job ex_id ex_cold) = Some r)"
  using update_status_never_hydrates [of ex_cold ex_id FAILED "Some ''late''" "[]"
      "Json_text (AWXJob_json ex_awx)" "AWX ex_awx"] ex_parse
  by (simp add: ex_cold_def ex_manager_def)

subsection \<open>Lookup\<close>

text \<open>
  C7. For an id with no entry in memory: when there is no cache file for it, \<open>get_job\<close>
  returns \<open>None\<close> and the state, the disk included, is unchanged; when there is a cache
  file that neither \<open>AWXJob.parse_raw\<close> nor \<open>OrchestrationJob.parse_raw\<close> accepts,
  \<open>get_job\<close> returns \<open>None\<close> and the only change is that the file is gone. The result
  is a value in both cases: no branch of \<open>get_job\<close> raises.
\<close>

theorem get_job_unknown_or_corrupt:
  "jobs m jid = None \<Longrightarrow>
     (disk m (cache_path jid) = None \<longrightarrow> get_job jid m = (None, m)) \<and>
     (disk m (cache_path jid) = Some text \<longrightarrow> AWXJob_parse_raw text = None \<longrightarrow>
      OrchestrationJob_parse_raw text = None \<longrightarrow>
        get_job jid m = (None, m\<lparr>disk := (disk m)(cache_path jid := None)\<rparr>))"
  by (simp add: get_job_def parse_cached_def)

theorem get_job_unknown_or_corrupt_witness:
  "jobs ex_cold ex_id_old = None \<and> disk ex_cold (cache_path ex_id_old) = None \<and>
   get_job ex_id_old ex_cold = (None, ex_cold) \<and>
   jobs ex_corrupt ex_id = None \<and> disk ex_corrupt (cache_path ex_id) = Some Not_json \<and>
   AWXJob_parse_raw Not_json = None \<and> OrchestrationJob_parse_raw Not_json = None \<and>
   fst (get_job ex_id ex_corrupt) = None \<and>
   disk (snd (get_job ex_id ex_corrupt)) (cache_path ex_id) = None"
proof -
  have a: "jobs ex_cold ex_id_old = None" "disk ex_cold (cache_path ex_id_old) = None"
    by (simp_all add: ex_cold_def ex_manager_def ex_id_def ex_id_old_def cache_path_def)
  have b: "jobs ex_corrupt ex_id = None" "disk ex_corrupt (cache_path ex_id) = Some Not_json"
    by (simp_all add: ex_corrupt_def ex_manager_def)
  from get_job_unknown_or_corrupt [OF a(1), of Not_json] a(2)
  have c: "get_job ex_id_old ex_cold = (None, ex_cold)" by simp
  from get_job_unknown_or_corrupt [OF b(1), of Not_json] b(2)
  have d: "get_job ex_id ex_corrupt
      = (None, ex_corrupt\<lparr>disk := (disk ex_corrupt)(cache_path ex_id := None)\<rparr>)"
    by simp
  show ?thesis using a b c by (simp add: d)
qed

text \<open>
  C2 (the code at a failing input). The orchestration job below is taken to COMPLETED,
  which writes its record to the cache. After its entry is dropped from memory,
  \<open>get_job\<close> reads the file back: \<open>AWXJob.parse_raw\<close> is tried first and accepts the
  document, since every field of \<open>AWXJob\<close> that the document lacks has a default, its
  \<open>request\<close> member validates as a \<open>JobTemplateRequest\<close> with all defaults and the
  members it does not know are ignored. The job comes back as an \<open>AWXJob\<close>; the request
  text, \<open>decomposed_tasks\<close>, \<open>awx_jobs\<close>, \<open>llm_response\<close> and \<open>llm_error\<close> are lost.
\<close>

theorem orchestration_record_hydrates_as_awx:
  "heap (snd (update_status ex_id COMPLETED (Some ''done'') [] ex_orch_manager)) 0
     = Orch (ex_orch\<lparr>OrchestrationJob.status := COMPLETED,
              OrchestrationJob.message := Some ''done'',
              OrchestrationJob.completed_at := Some 5000\<rparr>) \<and>
   disk (snd (update_status ex_id COMPLETED (Some ''done'') [] ex_orch_manager))
        (cache_path ex_id)
     = Some (Json_text (OrchestrationJob_json
         (ex_orch\<lparr>OrchestrationJob.status := COMPLETED,
              OrchestrationJob.message := Some ''done'',
              OrchestrationJob.completed_at := Some 5000\<rparr>))) \<and>
   fst (get_job ex_id
         ((snd (update_status ex_id COMPLETED (Some ''done'') [] ex_orch_manager))
            \<lparr>jobs := Map.empty\<rparr>)) = Some 1 \<and>
   heap (snd (get_job ex_id
         ((snd (update_status ex_id COMPLETED (Some ''done'') [] ex_orch_manager))
            \<lparr>jobs := Map.empty\<rparr>))) 1
     = AWX \<lparr>AWXJob.job_id = ex_id, AWXJob.status = COMPLETED, AWXJob.requested_at = 1000,
          AWXJob.completed_at = Some 5000,
          AWXJob.request = \<lparr>job_template_id = None, job_template_name = None,
             extra_vars = [], inventory_id = None, limit = None,
             JobTemplateRequest.metadata = [(''team'', ''ops'')]\<rparr>,
          AWXJob.message = Some ''done'',
          awx_job_id = None, awx_job_status = None, awx_job_output = None,
          awx_job_facts = None, awx_error = None, parent_job_id = None, child_job_ids = [],
          step_number = None, total_steps = None\<rparr>"
  by (simp add: ex_defs store_defs codec_defs Let_def)

subsection \<open>Purge\<close>

text \<open>
  C5. Let the cutoff be the clock's reading less the retention. After
  \<open>purge_old_jobs\<close>, an entry of the in-memory map whose job has a \<open>completed_at\<close>
  before the cutoff is gone, and an entry whose job has a \<open>completed_at\<close> at or after
  the cutoff, or none, is still there; a cache file (a name matching \<open>*.json\<close>) whose
  stored record has a \<open>completed_at\<close> before the cutoff is gone, and a file whose
  stored record has a \<open>completed_at\<close> at or after the cutoff, or none, is still there
  with the same text. The job objects are not touched.
\<close>

theorem purge_old_jobs_retention:
  "(\<forall>jid r t. jobs m jid = Some r \<longrightarrow> job_completed_at (heap m r) = Some t \<longrightarrow>
       t < clock m (ticks m) - timedelta_minutes (job_retention_minutes m) \<longrightarrow>
       jobs (purge_old_jobs m) jid = None) \<and>
   (\<forall>jid r t. jobs m jid = Some r \<longrightarrow> job_completed_at (heap m r) = Some t \<longrightarrow>
       clock m (ticks m) - timedelta_minutes (job_retention_minutes m) \<le> t \<longrightarrow>
       jobs (purge_old_jobs m) jid = Some r) \<and>
   (\<forall>jid r. jobs m jid = Some r \<longrightarrow> job_completed_at (heap m r) = None \<longrightarrow>
       jobs (purge_old_jobs m) jid = Some r) \<and>
   (\<forall>name text j t. disk m name = Some text \<longrightarrow> glob_json name \<longrightarrow>
       parse_cached text = Some j \<longrightarrow> job_completed_at j = Some t \<longrightarrow>
       t < clock m (ticks m) - timedelta_minutes (job_retention_minutes m) \<longrightarrow>
       disk (purge_old_jobs m) name = None) \<and>
   (\<forall>name text j t. disk m name = Some text \<longrightarrow> glob_json name \<longrightarrow>
       parse_cached text = Some j \<longrightarrow> job_completed_at j = Some t \<longrightarrow>
       clock m (ticks m) - timedelta_minutes (job_retention_minutes m) \<le> t \<longrightarrow>
       disk (purge_old_jobs m) name = Some text) \<and>
   (\<forall>name text j. disk m name = Some text \<longrightarrow> glob_json name \<longrightarrow>
       parse_cached text = Some j \<longrightarrow> job_completed_at j = None \<longrightarrow>
       disk (purge_old_jobs m) name = Some text) \<and>
   heap (purge_old_jobs m) = heap m"
  by (simp add: purge_old_jobs_def utcnow_def Let_def expired_def)

theorem purge_old_jobs_retention_witness:
  "jobs ex_purge ex_id_old = Some 0 \<and>
   job_completed_at (heap ex_purge 0) = Some 6340000000 \<and>
   jobs ex_purge ex_id_fresh = Some 1 \<and>
   job_completed_at (heap ex_purge 1) = Some 6460000000 \<and>
   jobs ex_purge ex_id = Some 2 \<and>
   job_completed_at (heap ex_purge 2) = None \<and>
   clock ex_purge (ticks ex_purge) - timedelta_minutes (job_retention_minutes ex_purge)
     = 6400000000 \<and>
   glob_json (cache_path ex_id_old) \<and> glob_json (cache_path ex_id_fresh) \<and>
   glob_json (cache_path ex_id) \<and>
   disk ex_purge (cache_path ex_id_old) = Some (Json_text (AWXJob_json ex_old)) \<and>
   disk ex_purge (cache_path ex_id_fresh) = Some (Json_text (AWXJob_json ex_fresh)) \<and>
   disk ex_purge (cache_path ex_id) = Some (Json_text (AWXJob_json ex_awx)) \<and>
   jobs (purge_old_jobs ex_purge) ex_id_old = None \<and>
   jobs (purge_old_jobs ex_purge) ex_id_fresh = Some 1 \<and>
   jobs (purge_old_jobs ex_purge) ex_id = Some 2 \<and>
   disk (purge_old_jobs ex_purge) (cache_path ex_id_old) = None \<and>
   disk (purge_old_jobs ex_purge) (cache_path ex_id_fresh)
     = Some (Json_text (AWXJob_json ex_fresh)) \<and>
   disk (purge_old_jobs ex_purge) (cache_path ex_id)
     = Some (Json_text (AWXJob_json ex_awx))"
proof -
  have c: "clock ex_purge (ticks ex_purge)
      - timedelta_minutes (job_retention_minutes ex_purge) = 6400000000"
    by (simp add: ex_purge_def timedelta_minutes_def)
  have g: "glob_json (cache_path ex_id_old)" "glob_json (cache_path ex_id_fresh)"
     "glob_json (cache_path ex_id)"
    by (simp_all add: glob_json_def cache_path_def ex_id_def ex_id_old_def ex_id_fresh_def)
  have j: "jobs ex_purge ex_id_old = Some 0" "jobs ex_purge ex_id_fresh = Some 1"
      "jobs ex_purge ex_id = Some 2"
    by (simp_all add: ex_purge_def ex_id_def ex_id_old_def ex_id_fresh_def)
  have h: "job_completed_at (heap ex_purge 0) = Some 6340000000"
     "job_completed_at (heap ex_purge 1) = Some 6460000000"
     "job_completed_at (heap ex_purge 2) = None"
    by (simp_all add: ex_purge_def ex_old_def ex_fresh_def ex_awx_def)
  have h': "job_completed_at (AWX ex_old) = Some 6340000000"
     "job_completed_at (AWX ex_fresh) = Some 6460000000"
     "job_completed_at (AWX ex_awx) = None"
    by (simp_all add: ex_old_def ex_fresh_def ex_awx_def)
  have d: "disk ex_purge (cache_path ex_id_old) = Some (Json_text (AWXJob_json ex_old))"
    "disk ex_purge (cache_path ex_id_fresh) = Some (Json_text (AWXJob_json ex_fresh))"
    "disk ex_purge (cache_path ex_id) = Some (Json_text (AWXJob_json ex_awx))"
    by (simp_all add: ex_purge_def cache_path_def ex_id_def ex_id_old_def ex_id_fresh_def)
  note p = purge_old_jobs_retention [of ex_purge, unfolded c]
  from p j h have m: "jobs (purge_old_jobs ex_purge) ex_id_old = None"
     "jobs (purge_old_jobs ex_purge) ex_id_fresh = Some 1"
     "jobs (purge_old_jobs ex_purge) ex_id = Some 2"
    by simp_all
  from p d g ex_parse ex_parse_old ex_parse_fresh h'
  have k: "disk (purge_old_jobs ex_purge) (cache_path ex_id_old) = None"
    "disk (purge_old_jobs ex_purge) (cache_path ex_id_fresh)
       = Some (Json_text (AWXJob_json ex_fresh))"
    "disk (purge_old_jobs ex_purge) (cache_path ex_id) = Some (Json_text (AWXJob_json ex_awx))"
    by simp_all
  from c g j h d m k show ?thesis by simp
qed

section \<open>Properties of the AWX adapter\<close>

lemma get_token_api_replies: "api_replies (snd (get_token a)) = api_replies a"
  by (simp add: get_token_def time_time_def client_post_token_def
      split: list.splits sum.splits prod.splits)

lemma get_token_api_calls:
  "filter is_api_call (sent (snd (get_token a))) = filter is_api_call (sent a)"
  by (simp add: get_token_def time_time_def client_post_token_def
      split: list.splits sum.splits prod.splits)

lemma client_request_api_calls:
  "filter is_api_call (sent (snd (client_request meth path tok a)))
     = filter is_api_call (sent a) @ [Api_call meth path tok]"
  by (simp add: client_request_def split: list.splits)

lemma client_request_Cons:
  "api_replies a = x # rest \<Longrightarrow>
     client_request meth path tok a
       = (x, a\<lparr>api_replies := rest, sent := sent a @ [Api_call meth path tok]\<rparr>)"
  by (simp add: client_request_def)

lemma forced_refresh:
  "token a = None \<Longrightarrow> token_replies a = Inr tr # later \<Longrightarrow> is_success tr \<Longrightarrow>
   token_of_body (body tr) = Inr t1 \<Longrightarrow>
     get_token a =
       (Inr t1, a\<lparr>reads := Suc (reads a), token_replies := later,
                  sent := sent a @ [Token_post], token := t1,
                  token_expires := Some (wall a (reads a) + 3600)\<rparr>)"
  by (simp add: get_token_def time_time_def client_post_token_def raise_for_status_def)

lemma request_at_most_two:
  "length (filter is_api_call (sent (snd (request' meth path a))))
     \<le> length (filter is_api_call (sent a)) + 2"
proof -
  obtain x a1 where g: "get_token a = (x, a1)" by (cases "get_token a")
  have s1: "filter is_api_call (sent a1) = filter is_api_call (sent a)"
    using get_token_api_calls [of a] g by simp
  show ?thesis
  proof (cases x)
    case (Inl e)
    then show ?thesis using g s1 by (simp add: request'_def)
  next
    case (Inr tok)
    obtain y a2 where c: "client_request meth path tok a1 = (y, a2)"
      by (cases "client_request meth path tok a1")
    have s2: "filter is_api_call (sent a2) = filter is_api_call (sent a) @ [Api_call meth path tok]"
      using client_request_api_calls [of meth path tok a1] c s1 by simp
    show ?thesis
    proof (cases y)
      case (Inl e)
      then show ?thesis using g Inr c s2 by (simp add: request'_def)
    next
      case r: (Inr resp)
      show ?thesis
      proof (cases "status_code resp = 401")
        case False
        then show ?thesis using g Inr c r s2 by (simp add: request'_def)
      next
        case True
        let ?a3 = "a2\<lparr>token := None, token_expires := None\<rparr>"
        obtain z a4 where g2: "get_token ?a3 = (z, a4)" by (cases "get_token ?a3")
        have s4: "filter is_api_call (sent a4) = filter is_api_call (sent a) @ [Api_call meth path tok]"
          using get_token_api_calls [of ?a3] g2 s2 by simp
        show ?thesis
        proof (cases z)
          case (Inl e)
          then show ?thesis using g Inr c r True g2 s4 by (simp add: request'_def)
        next
          case t: (Inr tok')
          obtain u a5 where c2: "client_request meth path tok' a4 = (u, a5)"
            by (cases "client_request meth path tok' a4")
          have s5: "filter is_api_call (sent a5)
              = filter is_api_call (sent a) @ [Api_call meth path tok, Api_call meth path tok']"
            using client_request_api_calls [of meth path tok' a4] c2 s4 by simp
          show ?thesis using g Inr c r True g2 t c2 s5
            by (cases u) (simp_all add: request'_def)
        qed
      qed
    qed
  qed
qed

text \<open>
  C6. One call of \<open>_request\<close> sends at most two API requests, whatever the server
  does. When a credential is at hand, the first answer is 401 and the token endpoint
  then issues a credential, exactly two API requests are sent, the second after a token
  request and bearing the new credential, which the adapter keeps; a second answer with
  a 2xx status is returned to the caller as the result, and a second 401 is raised as
  \<open>HTTPStatusError 401\<close>, with no further request.
\<close>

theorem request_retries_once_on_401:
  "length (filter is_api_call (sent (snd (request' meth path a))))
     \<le> length (filter is_api_call (sent a)) + 2 \<and>
   (\<forall>t0 a1 r1 r2 rest tr later t1.
      get_token a = (Inr t0, a1) \<longrightarrow>
      api_replies a = Inr r1 # Inr r2 # rest \<longrightarrow> status_code r1 = 401 \<longrightarrow>
      token_replies a1 = Inr tr # later \<longrightarrow> is_success tr \<longrightarrow>
      token_of_body (body tr) = Inr t1 \<longrightarrow>
        sent (snd (request' meth path a))
          = sent a1 @ [Api_call meth path t0, Token_post, Api_call meth path t1] \<and>
        api_replies (snd (request' meth path a)) = rest \<and>
        token (snd (request' meth path a)) = t1 \<and>
        (is_success r2 \<longrightarrow> fst (request' meth path a) = Inr r2) \<and>
        (status_code r2 = 401 \<longrightarrow> fst (request' meth path a) = Inl (HTTPStatusError 401)))"
proof (intro conjI allI impI)
  show "length (filter is_api_call (sent (snd (request' meth path a))))
     \<le> length (filter is_api_call (sent a)) + 2"
    by (rule request_at_most_two)
next
  fix t0 a1 r1 r2 rest tr later t1
  assume g: "get_token a = (Inr t0, a1)"
    and ar: "api_replies a = Inr r1 # Inr r2 # rest" and u: "status_code r1 = 401"
    and tr: "token_replies a1 = Inr tr # later" and ok: "is_success tr"
    and tb: "token_of_body (body tr) = Inr t1"
  have ar1: "api_replies a1 = Inr r1 # Inr r2 # rest"
    using get_token_api_replies [of a] g ar by simp
  let ?a2 = "a1\<lparr>api_replies := Inr r2 # rest, sent := sent a1 @ [Api_call meth path t0]\<rparr>"
  have c1: "client_request meth path t0 a1 = (Inr r1, ?a2)"
    using client_request_Cons [OF ar1] by simp
  let ?a3 = "?a2\<lparr>token := None, token_expires := None\<rparr>"
  let ?a4 = "?a3\<lparr>reads := Suc (reads ?a3), token_replies := later,
                  sent := sent ?a3 @ [Token_post], token := t1,
                  token_expires := Some (wall ?a3 (reads ?a3) + 3600)\<rparr>"
  have g2: "get_token ?a3 = (Inr t1, ?a4)"
    by (rule forced_refresh [OF _ _ ok tb]) (simp_all add: tr)
  let ?a5 = "?a4\<lparr>api_replies := rest, sent := sent ?a4 @ [Api_call meth path t1]\<rparr>"
  have c2: "client_request meth path t1 ?a4 = (Inr r2, ?a5)"
    by (rule client_request_Cons) simp
  have r: "request' meth path a = (raise_for_status r2, ?a5)"
    unfolding request'_def using g c1 u g2 c2 by (simp add: Let_def)
  show "sent (snd (request' meth path a))
          = sent a1 @ [Api_call meth path t0, Token_post, Api_call meth path t1]"
    by (simp add: r)
  show "api_replies (snd (request' meth path a)) = rest" by (simp add: r)
  show "token (snd (request' meth path a)) = t1" by (simp add: r)
  { assume "is_success r2"
    then show "fst (request' meth path a) = Inr r2" by (simp add: r raise_for_status_def) }
  { assume "status_code r2 = 401"
    then show "fst (request' meth path a) = Inl (HTTPStatusError 401)"
      by (simp add: r raise_for_status_def is_success_def) }
qed

lemmas adapter_defs = request'_def get_token_def time_time_def client_post_token_def
  client_request_def raise_for_status_def is_success_def obj_get_def
lemmas ex_adapter_defs = ex_adapter_def ex_adapter_locked_def ex_token_reply_def ex_401_def ex_200_def

theorem request_retries_once_on_401_witness:
  "get_token ex_adapter = (Inr (Some (JStr ''t0'')), ex_adapter\<lparr>reads := 1\<rparr>) \<and>
   api_replies ex_adapter = [Inr ex_401, Inr ex_200, Inr ex_200] \<and>
   api_replies ex_adapter_locked = [Inr ex_401, Inr ex_401, Inr ex_200] \<and>
   status_code ex_401 = 401 \<and> is_success ex_200 \<and> is_success ex_token_reply \<and>
   token_of_body (body ex_token_reply) = Inr (Some (JStr ''t1'')) \<and>
   fst (request' ''GET'' ''/api/v2/jobs/7/'' ex_adapter) = Inr ex_200 \<and>
   sent (snd (request' ''GET'' ''/api/v2/jobs/7/'' ex_adapter))
     = [Api_call ''GET'' ''/api/v2/jobs/7/'' (Some (JStr ''t0'')), Token_post,
        Api_call ''GET'' ''/api/v2/jobs/7/'' (Some (JStr ''t1''))] \<and>
   fst (request' ''GET'' ''/api/v2/jobs/7/'' ex_adapter_locked) = Inl (HTTPStatusError 401) \<and>
   sent (snd (request' ''GET'' ''/api/v2/jobs/7/'' ex_adapter_locked))
     = [Api_call ''GET'' ''/api/v2/jobs/7/'' (Some (JStr ''t0'')), Token_post,
        Api_call ''GET'' ''/api/v2/jobs/7/'' (Some (JStr ''t1''))] \<and>
   api_replies (snd (request' ''GET'' ''/api/v2/jobs/7/'' ex_adapter_locked)) = [Inr ex_200]"
proof -
  have g: "get_token ex_adapter = (Inr (Some (JStr ''t0'')), ex_adapter\<lparr>reads := 1\<rparr>)"
    "get_token ex_adapter_locked = (Inr (Some (JStr ''t0'')), ex_adapter_locked\<lparr>reads := 1\<rparr>)"
    by (simp_all add: get_token_def time_time_def ex_adapter_def ex_adapter_locked_def)
  have f: "api_replies ex_adapter = [Inr ex_401, Inr ex_200, Inr ex_200]"
    "api_replies ex_adapter_locked = [Inr ex_401, Inr ex_401, Inr ex_200]"
    "token_replies (ex_adapter\<lparr>reads := 1\<rparr>) = [Inr ex_token_reply, Inr ex_token_reply]"
    "token_replies (ex_adapter_locked\<lparr>reads := 1\<rparr>) = [Inr ex_token_reply, Inr ex_token_reply]"
    "sent ex_adapter = []" "sent ex_adapter_locked = []"
    by (simp_all add: ex_adapter_def ex_adapter_locked_def)
  have s: "status_code ex_401 = 401" "is_success ex_200" "is_success ex_token_reply"
    "token_of_body (body ex_token_reply) = Inr (Some (JStr ''t1''))"
    by (simp_all add: ex_401_def ex_200_def ex_token_reply_def is_success_def obj_get_def)
  note p = request_retries_once_on_401 [of "''GET''" "''/api/v2/jobs/7/''" ex_adapter,
      THEN conjunct2, rule_format, OF g(1) f(1) s(1) f(3) s(3) s(4)]
  note q = request_retries_once_on_401 [of "''GET''" "''/api/v2/jobs/7/''" ex_adapter_locked,
      THEN conjunct2, rule_format, OF g(2) f(2) s(1) f(4) s(3) s(4)]
  show ?thesis using g(1) f(1,2) s p q by (simp add: f(5,6))
qed

section \<open>Properties of the workers\<close>

subsection \<open>The request and the creation time\<close>



lemma payload_set_status [simp]:
  "payload (set_status st j) = payload j" "job_requested_at (set_status st j) = job_requested_at j"
  by (cases j; simp)+

lemma payload_set_message [simp]:
  "payload (set_message x j) = payload j" "job_requested_at (set_message x j) = job_requested_at j"
  by (cases j; simp)+

lemma payload_set_completed_at [simp]:
  "payload (set_completed_at x j) = payload j"
  "job_requested_at (set_completed_at x j) = job_requested_at j"
  by (cases j; simp)+








lemma then_do_snd:
  "P (snd x) \<Longrightarrow> (\<And>v m. P m \<Longrightarrow> P (snd (f v m))) \<Longrightarrow> P (snd (then_do x f))"
  by (cases x) (auto simp: then_do_def split: sum.splits)




















subsection \<open>The end of an orchestration\<close>

lemma jobs_maybe_purge_live:
  "jobs m jid = Some r \<Longrightarrow> job_completed_at (heap m r) = None \<Longrightarrow>
     jobs (maybe_purge m) jid = Some r"
  by (simp add: maybe_purge_def purge_old_jobs_def utcnow_def expired_def Let_def)

lemma write_fails_maybe_purge: "write_fails (maybe_purge m) = write_fails m"
  by (simp add: maybe_purge_def purge_old_jobs_def utcnow_def Let_def)

lemma update_status_live:
  assumes "orch_live jid r m" and "st \<notin> {COMPLETED, FAILED, CANCELED}"
  shows "fst (update_status jid st msg [] m) = Inr (Some r) \<and>
         orch_live jid r (snd (update_status jid st msg [] m)) \<and>
         job_status (heap (snd (update_status jid st msg [] m)) r) = st"
proof -
  from assms(1) obtain j where h: "heap m r = Orch j" "OrchestrationJob.completed_at j = None"
    and i: "jobs m jid = Some r" and w: "\<not> write_fails m"
    by (auto simp: orch_live_def split: job.splits)
  define j' where "j' = (if truthy msg
      then j\<lparr>OrchestrationJob.status := st, OrchestrationJob.message := msg\<rparr>
      else j\<lparr>OrchestrationJob.status := st\<rparr>)"
  have a: "assign_fields st msg [] (heap m r) = (None, Orch j')"
    and c: "OrchestrationJob.completed_at j' = None" "OrchestrationJob.status j' = st"
    using h by (simp_all add: assign_fields_def Let_def j'_def)
  let ?m1 = "m\<lparr>heap := (heap m)(r := Orch j')\<rparr>"
  have u: "update_status jid st msg [] m = (Inr (Some r), maybe_purge ?m1)"
    using i a assms(2) by (simp add: update_status_def Let_def)
  have "jobs (maybe_purge ?m1) jid = Some r"
    by (rule jobs_maybe_purge_live) (simp_all add: i c)
  then show ?thesis
    using u w c by (simp add: orch_live_def heap_maybe_purge write_fails_maybe_purge)
qed

lemma update_status_completes:
  assumes "orch_live jid r m"
  shows "fst (update_status jid COMPLETED msg [] m) = Inr (Some r) \<and>
         job_status (heap (snd (update_status jid COMPLETED msg [] m)) r) = COMPLETED"
proof -
  from assms(1) obtain j where h: "heap m r = Orch j"
    and i: "jobs m jid = Some r" and w: "\<not> write_fails m"
    by (auto simp: orch_live_def split: job.splits)
  define j' where "j' = (if truthy msg
      then j\<lparr>OrchestrationJob.status := COMPLETED, OrchestrationJob.message := msg\<rparr>
      else j\<lparr>OrchestrationJob.status := COMPLETED\<rparr>)"
  have a: "assign_fields COMPLETED msg [] (heap m r) = (None, Orch j')"
    and c: "OrchestrationJob.status j' = COMPLETED"
    using h by (simp_all add: assign_fields_def Let_def j'_def)
  show ?thesis
    using i a c w
    by (simp add: update_status_def utcnow_def poke_def persist_job_def Let_def heap_maybe_purge)
qed

lemma orch_assign_live:
  assumes "orch_live jid r m"
    and "\<And>a. OrchestrationJob.completed_at (f a) = OrchestrationJob.completed_at a"
  shows "fst (orch_assign r f m) = Inr () \<and> orch_live jid r (snd (orch_assign r f m))"
  using assms by (auto simp: orch_live_def orch_assign_def split: job.splits)

lemma orch_assign_status:
  assumes "\<And>a. OrchestrationJob.status (f a) = OrchestrationJob.status a"
  shows "job_status (heap (snd (orch_assign r f m)) r) = job_status (heap m r)"
  using assms by (auto simp: orch_assign_def split: job.splits)

lemma tracking_job_live:
  "orch_live jid r m \<Longrightarrow> orch_live jid r (snd (tracking_job i m))"
  by (simp add: tracking_job_def uuid4_def utcnow_def orch_live_def Let_def)

lemma tracking_job_heap: "heap (snd (tracking_job i m)) = heap m"
  by (simp add: tracking_job_def uuid4_def utcnow_def Let_def)

lemma track_jobs_live:
  "orch_live jid r m \<Longrightarrow>
     fst (track_jobs r ids m) = Inr () \<and> orch_live jid r (snd (track_jobs r ids m)) \<and>
     job_status (heap (snd (track_jobs r ids m)) r) = job_status (heap m r)"
proof (induction ids arbitrary: m)
  case Nil
  then show ?case by simp
next
  case (Cons i ids)
  obtain j m1 where t: "tracking_job i m = (j, m1)" by (cases "tracking_job i m")
  have l1: "orch_live jid r m1" and h1: "heap m1 = heap m"
    using tracking_job_live [OF Cons.prems, of i] tracking_job_heap [of i m] t by simp_all
  let ?f = "\<lambda>x. x\<lparr>awx_jobs := awx_jobs x @ [j]\<rparr>"
  obtain m2 where o: "orch_assign r ?f m1 = (Inr (), m2)" and l2: "orch_live jid r m2"
    using orch_assign_live [OF l1, of ?f] by (cases "orch_assign r ?f m1") auto
  have s2: "job_status (heap m2 r) = job_status (heap m r)"
    using orch_assign_status [of ?f r m1] o h1 by simp
  from Cons.IH [OF l2] s2 t o show ?case by (simp add: then_do_def)
qed


lemma then_do_Inr: "then_do (Inr v, m) f = f v m"
  by (simp add: then_do_def)

text \<open>
  C3 (the code at a failing input, and in general). Whatever the steps did,
  \<open>process_orchestration_job\<close> ends an orchestration job that is in memory and not yet
  completed in the state COMPLETED, as long as the orchestrator can be built and the
  disk can be written: the \<open>error\<close> member of the orchestrator's result is never
  read. The witness is the request \<open>Deploy nginx on Kubernetes\<close>, which decomposes
  into two steps, against a backend that refuses every launch: the first step fails,
  the orchestrator reports the error and no launched job, and the job ends COMPLETED.
\<close>

theorem orchestration_always_completed:
  assumes "orch_live jid r m" and "get_orchestrator api = None"
  shows "fst (process_orchestration_job api jid m) = Inr () \<and>
         job_status (heap (snd (process_orchestration_job api jid m)) r) = COMPLETED"
proof -
  from assms(1) obtain j where h: "heap m r = Orch j" and i: "jobs m jid = Some r"
    by (auto simp: orch_live_def split: job.splits)
  have g: "get_job jid m = (Some r, m)" using i by (simp add: get_job_def)
  let ?v = "update_status jid VALIDATING (Some ''Analyzing request with LLM.'') [] m"
  obtain m1 where u1: "?v = (Inr (Some r), m1)" and l1: "orch_live jid r m1"
    using update_status_live [OF assms(1), of VALIDATING "Some ''Analyzing request with LLM.''"]
    by (cases ?v) auto
  from l1 obtain j1 where h1: "heap m1 r = Orch j1"
    by (auto simp: orch_live_def split: job.splits)
  let ?result = "orchestrate api
      (OrchestrationRequest.request (OrchestrationJob.request j1))
      (OrchestrationRequest.context' (OrchestrationJob.request j1))"
  have rq: "orch_request r m1 = (Inr (OrchestrationJob.request j1), m1)"
    using h1 by (simp add: orch_request_def)
  let ?f2 = "\<lambda>j. j\<lparr>llm_response := Some (res_response ?result)\<rparr>"
  obtain m2 where a2: "orch_assign r ?f2 m1 = (Inr (), m2)" and l2: "orch_live jid r m2"
    using orch_assign_live [OF l1, of ?f2] by (cases "orch_assign r ?f2 m1") auto
  let ?f3 = "\<lambda>j. j\<lparr>OrchestrationJob.decomposed_tasks := map task_dict (res_steps ?result)\<rparr>"
  obtain m3 where a3: "orch_assign r ?f3 m2 = (Inr (), m3)" and l3: "orch_live jid r m3"
    using orch_assign_live [OF l2, of ?f3] by (cases "orch_assign r ?f3 m2") auto
  have tail: "\<exists>m'. (if res_awx_jobs ?result \<noteq> [] then
          then_do (update_status jid MONITORING
                     (Some (''Orchestration completed. Launched ''
                            @ str_int (int (length (res_awx_jobs ?result))) @ '' AWX job(s).''))
                     [] m3)
            (\<lambda>_ m. track_jobs r (res_awx_jobs ?result) m)
        else
          then_do (update_status jid COMPLETED
                     (Some ''Orchestration completed (no AWX jobs launched).'') [] m3)
            (\<lambda>_ m. (Inr (), m))) = (Inr (), m') \<and>
        (job_status (heap m' r) = COMPLETED \<or> orch_live jid r m')"
  proof (cases "res_awx_jobs ?result = []")
    case True
    let ?u = "update_status jid COMPLETED
        (Some ''Orchestration completed (no AWX jobs launched).'') [] m3"
    obtain x m4 where u: "?u = (x, m4)" by (cases ?u)
    with update_status_completes [OF l3, of "Some ''Orchestration completed (no AWX jobs launched).''"]
    have "x = Inr (Some r)" "job_status (heap m4 r) = COMPLETED" by simp_all
    with True u show ?thesis by (simp add: then_do_def)
  next
    case False
    let ?msg = "Some (''Orchestration completed. Launched ''
                            @ str_int (int (length (res_awx_jobs ?result))) @ '' AWX job(s).'')"
    let ?u = "update_status jid MONITORING ?msg [] m3"
    obtain x m4 where u: "?u = (x, m4)" by (cases ?u)
    with update_status_live [OF l3, of MONITORING ?msg]
    have x: "x = Inr (Some r)" and l4: "orch_live jid r m4" by simp_all
    obtain y m5 where t: "track_jobs r (res_awx_jobs ?result) m4 = (y, m5)"
      by (cases "track_jobs r (res_awx_jobs ?result) m4")
    with track_jobs_live [OF l4, of "res_awx_jobs ?result"]
    have "y = Inr ()" "orch_live jid r m5" by simp_all
    with False u x t show ?thesis by (simp add: then_do_def)
  qed
  then obtain m' where t: "(if res_awx_jobs ?result \<noteq> [] then
          then_do (update_status jid MONITORING
                     (Some (''Orchestration completed. Launched ''
                            @ str_int (int (length (res_awx_jobs ?result))) @ '' AWX job(s).''))
                     [] m3)
            (\<lambda>_ m. track_jobs r (res_awx_jobs ?result) m)
        else
          then_do (update_status jid COMPLETED
                     (Some ''Orchestration completed (no AWX jobs launched).'') [] m3)
            (\<lambda>_ m. (Inr (), m))) = (Inr (), m')"
    and d: "job_status (heap m' r) = COMPLETED \<or> orch_live jid r m'"
    by blast
  have last: "\<exists>m''. (if job_status (heap m' r) \<noteq> COMPLETED then
            then_do (update_status jid COMPLETED
                       (Some ''Orchestration completed successfully.'') [] m')
              (\<lambda>_ m. (Inr (), m))
          else (Inr (), m')) = (Inr (), m'') \<and> job_status (heap m'' r) = COMPLETED"
  proof (cases "job_status (heap m' r) = COMPLETED")
    case True
    then show ?thesis by simp
  next
    case False
    with d have l: "orch_live jid r m'" by simp
    let ?u = "update_status jid COMPLETED (Some ''Orchestration completed successfully.'') [] m'"
    obtain x m4 where u: "?u = (x, m4)" by (cases ?u)
    with update_status_completes [OF l, of "Some ''Orchestration completed successfully.''"]
    have "x = Inr (Some r)" "job_status (heap m4 r) = COMPLETED" by simp_all
    with False u show ?thesis by (simp add: then_do_def)
  qed
  then obtain m'' where e: "(if job_status (heap m' r) \<noteq> COMPLETED then
            then_do (update_status jid COMPLETED
                       (Some ''Orchestration completed successfully.'') [] m')
              (\<lambda>_ m. (Inr (), m))
          else (Inr (), m')) = (Inr (), m'')"
    and f: "job_status (heap m'' r) = COMPLETED"
    by blast
  have b: "orchestration_body api jid r m = (Inr (), m'')"
    unfolding orchestration_body_def
    by (simp only: u1 then_do_Inr assms(2) option.case rq Let_def a2 a3 t e)
  show ?thesis
    using g h b f by (simp add: process_orchestration_job_def)
qed

theorem orchestration_always_completed_witness:
  "orch_live ex_id 0 ex_two_steps_manager \<and> get_orchestrator ex_api_refusing = None \<and>
   OrchestrationRequest.request (OrchestrationJob.request ex_two_steps)
     = ''Deploy nginx on Kubernetes'' \<and>
   res_error (orchestrate ex_api_refusing ''Deploy nginx on Kubernetes'' [])
     = Some ''Failed to launch task provision-k8s-cluster: HTTP status 400'' \<and>
   map task_status (res_steps (orchestrate ex_api_refusing ''Deploy nginx on Kubernetes'' []))
     = [Some ''failed'', Some ''completed''] \<and>
   res_awx_jobs (orchestrate ex_api_refusing ''Deploy nginx on Kubernetes'' []) = [] \<and>
   fst (process_orchestration_job ex_api_refusing ex_id ex_two_steps_manager) = Inr () \<and>
   job_status (heap (snd (process_orchestration_job ex_api_refusing ex_id
       ex_two_steps_manager)) 0) = COMPLETED"
proof -
  have l: "orch_live ex_id 0 ex_two_steps_manager"
    by (simp add: orch_live_def ex_two_steps_manager_def ex_manager_def ex_two_steps_def
        ex_orch_def)
  have g: "get_orchestrator ex_api_refusing = None"
    by (simp add: ex_api_refusing_def ex_api_def)
  have q: "OrchestrationRequest.request (OrchestrationJob.request ex_two_steps)
     = ''Deploy nginx on Kubernetes''"
    by (simp add: ex_two_steps_def)
  have e: "res_error (orchestrate ex_api_refusing ''Deploy nginx on Kubernetes'' [])
     = Some ''Failed to launch task provision-k8s-cluster: HTTP status 400''"
    by code_simp
  have s: "map task_status
      (res_steps (orchestrate ex_api_refusing ''Deploy nginx on Kubernetes'' []))
     = [Some ''failed'', Some ''completed'']"
    by code_simp
  have n: "res_awx_jobs (orchestrate ex_api_refusing ''Deploy nginx on Kubernetes'' []) = []"
    by code_simp
  from orchestration_always_completed [OF l g] l g q e s n show ?thesis by simp
qed

end
